theory Spec2Isabelle
  imports Main "HOL-Library.List_Lexorder" "HOL-Library.Char_ord"
begin

section \<open>Strings\<close>

text \<open>
  Python strings are modelled as \<^typ>\<open>string\<close>. The order on strings is the lexicographic
  one of \<^theory_text>\<open>List_Lexorder\<close> over the byte order of \<^theory_text>\<open>Char_ord\<close>, which is
  how Python's \<^verbatim>\<open>sorted\<close> compares two \<^verbatim>\<open>str\<close> values.
\<close>

definition TAB :: string where
  "TAB = [CHR 0x09]"

definition COMMA :: char where
  "COMMA = CHR '',''"

text \<open>\<^verbatim>\<open>s.split(c)\<close> for a one-character separator: never empty, one more part than
  there are separators in \<^verbatim>\<open>s\<close>.\<close>

fun split_on :: "char \<Rightarrow> string \<Rightarrow> string list" where
  "split_on c [] = [[]]"
| "split_on c (x # xs) =
     (if x = c then [] # split_on c xs
      else (case split_on c xs of
              [] \<Rightarrow> [[x]]
            | p # ps \<Rightarrow> (x # p) # ps))"

text \<open>\<^verbatim>\<open>sep.join(parts)\<close>.\<close>

fun join :: "string \<Rightarrow> string list \<Rightarrow> string" where
  "join sep [] = []"
| "join sep [p] = p"
| "join sep (p # q # ps) = p @ sep @ join sep (q # ps)"

section \<open>Tables\<close>

text \<open>
  A row of a data frame (a pandas \<^verbatim>\<open>Series\<close>) maps a column name to the text of the cell,
  that is, to what \<^verbatim>\<open>str\<close> returns for the value stored there. The tip-distance table
  and the taxonomic table are read with an index column and are only ever looked up by label:
  they are maps from the label to the row, so a label names one row. The HGT table is iterated in
  file order, so it is the list of its labelled rows. The co-occurrence table is read without an
  index column: it has a header and a body of cells, and the program computes its index.

  The cells of the taxonomic table are compared with each other (line 92), so what
  \<^verbatim>\<open>read_table\<close> makes of an empty cell matters there: the missing value
  \<^verbatim>\<open>NaN\<close>. A rank cell is \<open>None\<close> when the rank is missing and \<open>Some\<close> of its text
  otherwise.
\<close>

type_synonym row = "string \<rightharpoonup> string"

type_synonym frame = "string \<rightharpoonup> row"

type_synonym rank_cell = "string option"

type_synonym taxa_frame = "string \<rightharpoonup> (string \<rightharpoonup> rank_cell)"

text \<open>Python's \<^verbatim>\<open>a != b\<close> on two rank cells: the missing value differs from every
  value, itself included.\<close>

definition differs :: "rank_cell \<Rightarrow> rank_cell \<Rightarrow> bool" where
  "differs a b = (a = None \<or> b = None \<or> a \<noteq> b)"

type_synonym listed_frame = "(string \<times> row) list"

record table_file =
  header :: "string list"
  body :: "string list list"

text \<open>
  The ways the program stops early. The first six are the \<^verbatim>\<open>sys.exit\<close> calls of
  \<^verbatim>\<open>main\<close>, each carrying the key its message ends with; the last two are the uncaught
  exceptions of a failed lookup.
\<close>

datatype failure =
    NotCorrectFormat string
  | NoMeasures
  | NotStrainLevel string
  | NotInHGT string
  | ReverseInHGT string
  | ReverseInCooccur string
  | KeyError
  | IndexError

text \<open>The specification groups the exits into a format error and consistency errors.\<close>

fun FormatError :: "failure \<Rightarrow> bool" where
  "FormatError (NotCorrectFormat k) = True"
| "FormatError _ = False"

fun ConsistencyError :: "failure \<Rightarrow> bool" where
  "ConsistencyError (NotStrainLevel k) = True"
| "ConsistencyError (ReverseInHGT k) = True"
| "ConsistencyError (ReverseInCooccur k) = True"
| "ConsistencyError _ = False"

definition in_index :: "string \<Rightarrow> listed_frame \<Rightarrow> bool" where
  "in_index k df = (k \<in> set (map fst df))"

text \<open>\<^verbatim>\<open>df.loc[k, col]\<close> on a listed frame whose label \<^verbatim>\<open>k\<close> names one row.\<close>

definition loc_cell :: "listed_frame \<Rightarrow> string \<Rightarrow> string \<Rightarrow> failure + string" where
  "loc_cell df k col =
     (case map_of df k of
        None \<Rightarrow> Inl KeyError
      | Some r \<Rightarrow> (case r col of None \<Rightarrow> Inl KeyError | Some v \<Rightarrow> Inr v))"

section \<open>The co-occurrence index (lines 48 to 55)\<close>

definition rename_columns :: "string list \<Rightarrow> failure + string list" where
  "rename_columns cols =
     (case cols of
        [] \<Rightarrow> Inl IndexError
      | c0 # rest \<Rightarrow>
          if c0 = ''taxoni'' then
            (case rest of
               [] \<Rightarrow> Inl IndexError
             | c1 # rest' \<Rightarrow>
                 if c1 = ''taxonj'' then Inr (''taxon_i'' # ''taxon_j'' # rest')
                 else Inr cols)
          else Inr cols)"

text \<open>The canonical key of an unordered pair: \<^verbatim>\<open>",".join(sorted([a, b]))\<close>.\<close>

definition pair_key :: "string \<Rightarrow> string \<Rightarrow> string" where
  "pair_key a b = join [COMMA] (sort [a, b])"

fun index_rows :: "string list \<Rightarrow> string list list \<Rightarrow> failure + listed_frame" where
  "index_rows cols [] = Inr []"
| "index_rows cols (cells # rest) =
     (let r = map_of (zip cols cells) in
      case r ''taxon_i'' of
        None \<Rightarrow> Inl KeyError
      | Some a \<Rightarrow>
          (case r ''taxon_j'' of
             None \<Rightarrow> Inl KeyError
           | Some b \<Rightarrow>
               (case index_rows cols rest of
                  Inl e \<Rightarrow> Inl e
                | Inr df \<Rightarrow> Inr ((pair_key a b, r) # df))))"

definition index_cooccur :: "table_file \<Rightarrow> failure + listed_frame" where
  "index_cooccur f =
     (case rename_columns (header f) of
        Inl e \<Rightarrow> Inl e
      | Inr cols \<Rightarrow> index_rows cols (body f))"

section \<open>Splitting the HGT keys (lines 60 to 65)\<close>

fun split_keys :: "string list \<Rightarrow> failure + string list list" where
  "split_keys [] = Inr []"
| "split_keys (taxa_combo_orig # ks) =
     (let taxa_combo = split_on COMMA taxa_combo_orig in
      if length taxa_combo \<noteq> 2 then Inl (NotCorrectFormat taxa_combo_orig)
      else (case split_keys ks of
              Inl e \<Rightarrow> Inl e
            | Inr taxa_combinations \<Rightarrow> Inr (taxa_combo # taxa_combinations)))"

section \<open>One pair (lines 75 to 119)\<close>

text \<open>Lines 81 to 85: the tip distance, looked up at row \<^verbatim>\<open>taxon_i\<close>, column
  \<^verbatim>\<open>taxon_j\<close> when both taxa are row labels.\<close>

definition tip_dist_val :: "frame \<Rightarrow> string \<Rightarrow> string \<Rightarrow> failure + string" where
  "tip_dist_val tip_dist taxon_i taxon_j =
     (if tip_dist taxon_i = None \<or> tip_dist taxon_j = None then Inr ''NA''
      else (case tip_dist taxon_i of
              None \<Rightarrow> Inl KeyError
            | Some r \<Rightarrow> (case r taxon_j of None \<Rightarrow> Inl KeyError | Some v \<Rightarrow> Inr v)))"

definition tax_levels :: "string list" where
  "tax_levels =
     [''Domain'', ''Phylum'', ''Class'', ''Order'', ''Family'', ''Genus'', ''Species'', ''Strain'']"

text \<open>\<^verbatim>\<open>row[cols]\<close>: the cells of the named columns, a \<^verbatim>\<open>KeyError\<close> when one is
  missing.\<close>

fun select :: "(string \<rightharpoonup> 'a) \<Rightarrow> string list \<Rightarrow> failure + 'a list" where
  "select r [] = Inr []"
| "select r (c # cs) =
     (case r c of
        None \<Rightarrow> Inl KeyError
      | Some v \<Rightarrow> (case select r cs of Inl e \<Rightarrow> Inl e | Inr vs \<Rightarrow> Inr (v # vs)))"

text \<open>\<^verbatim>\<open>taxa_tab.loc[taxon, tax_levels]\<close>.\<close>

definition loc_levels :: "taxa_frame \<Rightarrow> string \<Rightarrow> failure + rank_cell list" where
  "loc_levels taxa_tab taxon =
     (case taxa_tab taxon of
        None \<Rightarrow> Inl KeyError
      | Some r \<Rightarrow> select r tax_levels)"

text \<open>Lines 87 to 94: the loop over the ranks, leaving at the first rank where
  \<^verbatim>\<open>!=\<close> holds.\<close>

fun scan_levels :: "string list \<Rightarrow> rank_cell list \<Rightarrow> rank_cell list \<Rightarrow> string" where
  "scan_levels (l # ls) (a # as) (b # bs) = (if differs a b then l else scan_levels ls as bs)"
| "scan_levels _ _ _ = ''NO_DIFF_FOUND''"

definition diff_level :: "rank_cell list \<Rightarrow> rank_cell list \<Rightarrow> string" where
  "diff_level taxon_i_levels taxon_j_levels = scan_levels tax_levels taxon_i_levels taxon_j_levels"

text \<open>Lines 87 to 96.\<close>

definition strain_check :: "taxa_frame \<Rightarrow> string \<Rightarrow> string \<Rightarrow> failure + unit" where
  "strain_check taxa_tab taxon_i taxon_j =
     (case loc_levels taxa_tab taxon_i of
        Inl e \<Rightarrow> Inl e
      | Inr taxon_i_levels \<Rightarrow>
          (case loc_levels taxa_tab taxon_j of
             Inl e \<Rightarrow> Inl e
           | Inr taxon_j_levels \<Rightarrow>
               if diff_level taxon_i_levels taxon_j_levels \<noteq> ''Strain''
               then Inl (NotStrainLevel (taxon_i @ [COMMA] @ taxon_j))
               else Inr ()))"

text \<open>Lines 98 to 101.\<close>

definition hgt_check :: "listed_frame \<Rightarrow> string \<Rightarrow> string \<Rightarrow> failure + unit" where
  "hgt_check hgt_tab taxa_combo reverse_taxa_combo =
     (if \<not> in_index taxa_combo hgt_tab then Inl (NotInHGT taxa_combo)
      else if in_index reverse_taxa_combo hgt_tab then Inl (ReverseInHGT reverse_taxa_combo)
      else Inr ())"

text \<open>Lines 103, 104 and 117.\<close>

definition hgt_cols :: "listed_frame \<Rightarrow> string \<Rightarrow> failure + string" where
  "hgt_cols hgt_tab taxa_combo =
     (case loc_cell hgt_tab taxa_combo ''hgt_count'' of
        Inl e \<Rightarrow> Inl e
      | Inr hgt_count \<Rightarrow>
          (case loc_cell hgt_tab taxa_combo ''species'' of
             Inl e \<Rightarrow> Inl e
           | Inr species \<Rightarrow> Inr (species @ TAB @ hgt_count)))"

text \<open>Lines 106 to 115: the co-occurrence values of the pair, one for each measure.\<close>

definition cooccur_values ::
  "listed_frame \<Rightarrow> string list \<Rightarrow> string \<Rightarrow> string \<Rightarrow> failure + string list" where
  "cooccur_values cooccur_tab msrs taxa_combo reverse_taxa_combo =
     (if in_index taxa_combo cooccur_tab then
        (case map_of cooccur_tab taxa_combo of
           None \<Rightarrow> Inl KeyError
         | Some cooccur_row \<Rightarrow> select cooccur_row msrs)
      else if in_index reverse_taxa_combo cooccur_tab
      then Inl (ReverseInCooccur reverse_taxa_combo)
      else Inr (replicate (length msrs) ''NA''))"

definition process_pair ::
  "string list \<Rightarrow> listed_frame \<Rightarrow> frame \<Rightarrow> taxa_frame \<Rightarrow> listed_frame \<Rightarrow> string list
     \<Rightarrow> failure + string" where
  "process_pair msrs cooccur_tab tip_dist taxa_tab hgt_tab taxa_pair =
     (case taxa_pair of
        taxon_i # taxon_j # _ \<Rightarrow>
          (let taxa_combo = taxon_i @ [COMMA] @ taxon_j;
               reverse_taxa_combo = taxon_j @ [COMMA] @ taxon_i
           in case tip_dist_val tip_dist taxon_i taxon_j of
                Inl e \<Rightarrow> Inl e
              | Inr dist \<Rightarrow>
             (case strain_check taxa_tab taxon_i taxon_j of
                Inl e \<Rightarrow> Inl e
              | Inr _ \<Rightarrow>
             (case hgt_check hgt_tab taxa_combo reverse_taxa_combo of
                Inl e \<Rightarrow> Inl e
              | Inr _ \<Rightarrow>
             (case hgt_cols hgt_tab taxa_combo of
                Inl e \<Rightarrow> Inl e
              | Inr hcols \<Rightarrow>
             (case cooccur_values cooccur_tab msrs taxa_combo reverse_taxa_combo of
                Inl e \<Rightarrow> Inl e
              | Inr vals \<Rightarrow>
                  Inr (taxa_combo @ TAB @ taxon_i @ TAB @ taxon_j @ TAB @ dist @ TAB @ hcols
                       @ TAB @ join TAB vals))))))
      | _ \<Rightarrow> Inl IndexError)"

section \<open>The run\<close>

text \<open>
  The outcome of a run is the list of the lines printed on standard output and the way the run
  ended: \<open>None\<close> when it reached the end, the failure otherwise. Lines printed before a
  failure stay printed.
\<close>

fun run_pairs ::
  "string list \<Rightarrow> listed_frame \<Rightarrow> frame \<Rightarrow> taxa_frame \<Rightarrow> listed_frame \<Rightarrow> string list list
     \<Rightarrow> string list \<times> failure option" where
  "run_pairs msrs cooccur_tab tip_dist taxa_tab hgt_tab [] = ([], None)"
| "run_pairs msrs cooccur_tab tip_dist taxa_tab hgt_tab (taxa_pair # rest) =
     (case process_pair msrs cooccur_tab tip_dist taxa_tab hgt_tab taxa_pair of
        Inl e \<Rightarrow> ([], Some e)
      | Inr line \<Rightarrow>
          (case run_pairs msrs cooccur_tab tip_dist taxa_tab hgt_tab rest of
             (out, ended) \<Rightarrow> (line # out, ended)))"

definition headerline :: "string list \<Rightarrow> string list" where
  "headerline msrs =
     [''taxa_combo'', ''taxon_i'', ''taxon_j'', ''tip_dist'', ''species'', ''ranger_hgt_tallies'']
     @ map (\<lambda>m. ''cooccur_'' @ m) msrs"

text \<open>Lines 60 to 119, on the tables as they are after line 58.\<close>

definition run ::
  "string \<Rightarrow> listed_frame \<Rightarrow> frame \<Rightarrow> taxa_frame \<Rightarrow> listed_frame
     \<Rightarrow> string list \<times> failure option" where
  "run cooccur_measure cooccur_tab tip_dist taxa_tab hgt_tab =
     (case split_keys (map fst hgt_tab) of
        Inl e \<Rightarrow> ([], Some e)
      | Inr taxa_combinations \<Rightarrow>
          (let msrs = split_on COMMA cooccur_measure in
           if length msrs = 0 then ([], Some NoMeasures)
           else (case run_pairs msrs cooccur_tab tip_dist taxa_tab hgt_tab taxa_combinations of
                   (out, ended) \<Rightarrow> (join TAB (headerline msrs) # out, ended))))"

definition main ::
  "string \<Rightarrow> table_file \<Rightarrow> frame \<Rightarrow> taxa_frame \<Rightarrow> listed_frame
     \<Rightarrow> string list \<times> failure option" where
  "main cooccur_measure cooccur_file tip_dist taxa_tab hgt_tab =
     (case index_cooccur cooccur_file of
        Inl e \<Rightarrow> ([], Some e)
      | Inr cooccur_tab \<Rightarrow> run cooccur_measure cooccur_tab tip_dist taxa_tab hgt_tab)"

section \<open>The lookups as the specification words them\<close>

text \<open>
  The specification describes two of the lookups in its own words. They are written out here
  under their own names, next to \<open>tip_dist_val\<close> and \<open>cooccur_values\<close> above, which follow the
  program.
\<close>

definition cell :: "frame \<Rightarrow> string \<Rightarrow> string \<Rightarrow> string option" where
  "cell df r c = (case df r of None \<Rightarrow> None | Some cells \<Rightarrow> cells c)"

text \<open>"Look up tip distance between the two taxa in either matrix direction; if either taxon
  absent from the distance table, emit NA for that field."\<close>

definition spec_tip_dist_val :: "frame \<Rightarrow> string \<Rightarrow> string \<Rightarrow> failure + string" where
  "spec_tip_dist_val tip_dist taxon_i taxon_j =
     (if tip_dist taxon_i = None \<or> tip_dist taxon_j = None then Inr ''NA''
      else (case cell tip_dist taxon_i taxon_j of
              Some v \<Rightarrow> Inr v
            | None \<Rightarrow>
                (case cell tip_dist taxon_j taxon_i of
                   Some v \<Rightarrow> Inr v
                 | None \<Rightarrow> Inl KeyError)))"

text \<open>"For each requested measure, look up the value in the co-occurrence table under the
  canonical key; if absent, try the reverse canonical key and fail if found; if neither present,
  emit NA for that measure."\<close>

definition spec_cooccur_values ::
  "listed_frame \<Rightarrow> string list \<Rightarrow> string \<Rightarrow> string \<Rightarrow> failure + string list" where
  "spec_cooccur_values cooccur_tab msrs taxon_i taxon_j =
     (let canonical = join [COMMA] (sort [taxon_i, taxon_j]);
          reverse_canonical = join [COMMA] (rev (sort [taxon_i, taxon_j]))
      in if in_index canonical cooccur_tab then
           (case map_of cooccur_tab canonical of
              None \<Rightarrow> Inl KeyError
            | Some cooccur_row \<Rightarrow> select cooccur_row msrs)
         else if in_index reverse_canonical cooccur_tab
         then Inl (ReverseInCooccur reverse_canonical)
         else Inr (replicate (length msrs) ''NA''))"

section \<open>Example tables\<close>

text \<open>Two strains \<open>X\<close> and \<open>Y\<close> of one species: the same at every rank down to Species,
  different at Strain.\<close>

definition ranks_ex :: "string \<Rightarrow> string \<rightharpoonup> rank_cell" where
  "ranks_ex strain =
     [''Domain'' \<mapsto> Some ''d'', ''Phylum'' \<mapsto> Some ''p'', ''Class'' \<mapsto> Some ''c'',
      ''Order'' \<mapsto> Some ''o'', ''Family'' \<mapsto> Some ''f'', ''Genus'' \<mapsto> Some ''g'',
      ''Species'' \<mapsto> Some ''sp1'', ''Strain'' \<mapsto> Some strain]"

definition taxa_ex :: taxa_frame where
  "taxa_ex = [''X'' \<mapsto> ranks_ex ''X'', ''Y'' \<mapsto> ranks_ex ''Y'']"

text \<open>The same two rows with the Strain cell left empty in both.\<close>

definition taxa_no_strain_ex :: taxa_frame where
  "taxa_no_strain_ex =
     [''X'' \<mapsto> (ranks_ex ''X'')(''Strain'' \<mapsto> None),
      ''Y'' \<mapsto> (ranks_ex ''Y'')(''Strain'' \<mapsto> None)]"

text \<open>The same two rows with the Species cell left empty in both.\<close>

definition taxa_no_species_ex :: taxa_frame where
  "taxa_no_species_ex =
     [''X'' \<mapsto> (ranks_ex ''X'')(''Species'' \<mapsto> None),
      ''Y'' \<mapsto> (ranks_ex ''Y'')(''Species'' \<mapsto> None)]"

text \<open>A square tip-distance matrix over \<open>X\<close> and \<open>Y\<close>.\<close>

definition tip_ex :: frame where
  "tip_ex =
     [''X'' \<mapsto> [''X'' \<mapsto> ''0.0'', ''Y'' \<mapsto> ''0.13''],
      ''Y'' \<mapsto> [''X'' \<mapsto> ''0.13'', ''Y'' \<mapsto> ''0.0'']]"

text \<open>A tip-distance table with the rows \<open>X\<close> and \<open>Y\<close> and the one column \<open>X\<close>.\<close>

definition tip_one_column_ex :: frame where
  "tip_one_column_ex = [''X'' \<mapsto> [''X'' \<mapsto> ''0.0''], ''Y'' \<mapsto> [''X'' \<mapsto> ''0.13'']]"

definition hgt_row_ex :: row where
  "hgt_row_ex = [''species'' \<mapsto> ''sp1'', ''hgt_count'' \<mapsto> ''5'']"

definition hgt_ex :: listed_frame where
  "hgt_ex = [(''X,Y'', hgt_row_ex)]"

definition hgt_reversed_ex :: listed_frame where
  "hgt_reversed_ex = [(''Y,X'', hgt_row_ex)]"

definition hgt_empty_part_ex :: listed_frame where
  "hgt_empty_part_ex = [(''X,'', hgt_row_ex)]"

definition hgt_three_parts_ex :: listed_frame where
  "hgt_three_parts_ex = [(''X,Y'', hgt_row_ex), (''X,Y,Z'', hgt_row_ex)]"

definition hgt_both_orders_ex :: listed_frame where
  "hgt_both_orders_ex = [(''X,Y'', hgt_row_ex), (''Y,X'', hgt_row_ex)]"

definition hgt_self_pair_ex :: listed_frame where
  "hgt_self_pair_ex = [(''X,X'', hgt_row_ex)]"

definition hgt_unknown_taxon_ex :: listed_frame where
  "hgt_unknown_taxon_ex = [(''X,Z'', hgt_row_ex)]"

definition hgt_unknown_both_orders_ex :: listed_frame where
  "hgt_unknown_both_orders_ex = [(''X,Z'', hgt_row_ex), (''Z,X'', hgt_row_ex)]"

definition hgt_unknown_self_pair_ex :: listed_frame where
  "hgt_unknown_self_pair_ex = [(''Z,Z'', hgt_row_ex)]"

definition cooccur_ex :: table_file where
  "cooccur_ex =
     \<lparr>header = [''taxon_i'', ''taxon_j'', ''jaccard''], body = [[''X'', ''Y'', ''0.42'']]\<rparr>"

text \<open>The index the program computes for \<open>cooccur_ex\<close>.\<close>

definition cooccur_tab_ex :: listed_frame where
  "cooccur_tab_ex =
     [(''X,Y'', map_of (zip [''taxon_i'', ''taxon_j'', ''jaccard''] [''X'', ''Y'', ''0.42'']))]"

text \<open>A co-occurrence file that holds the pair of \<open>X\<close> and \<open>Y\<close> in both orders.\<close>

definition cooccur_both_orders_ex :: table_file where
  "cooccur_both_orders_ex =
     \<lparr>header = [''taxon_i'', ''taxon_j'', ''jaccard''],
      body = [[''X'', ''Y'', ''0.42''], [''Y'', ''X'', ''0.42'']]\<rparr>"

definition cooccur_unknown_self_pair_ex :: table_file where
  "cooccur_unknown_self_pair_ex =
     \<lparr>header = [''taxon_i'', ''taxon_j'', ''jaccard''], body = [[''Z'', ''Z'', ''1.0'']]\<rparr>"

definition cooccur_tab_unknown_self_pair_ex :: listed_frame where
  "cooccur_tab_unknown_self_pair_ex =
     [(''Z,Z'', map_of (zip [''taxon_i'', ''taxon_j'', ''jaccard''] [''Z'', ''Z'', ''1.0'']))]"

definition cooccur_self_pair_ex :: table_file where
  "cooccur_self_pair_ex =
     \<lparr>header = [''taxon_i'', ''taxon_j'', ''jaccard''], body = [[''X'', ''X'', ''1.0'']]\<rparr>"

definition cooccur_tab_self_pair_ex :: listed_frame where
  "cooccur_tab_self_pair_ex =
     [(''X,X'', map_of (zip [''taxon_i'', ''taxon_j'', ''jaccard''] [''X'', ''X'', ''1.0'']))]"

text \<open>The header line printed for the one measure \<open>jaccard\<close>.\<close>

definition header_ex :: string where
  "header_ex =
     ''taxa_combo'' @ TAB @ ''taxon_i'' @ TAB @ ''taxon_j'' @ TAB @ ''tip_dist'' @ TAB
     @ ''species'' @ TAB @ ''ranger_hgt_tallies'' @ TAB @ ''cooccur_jaccard''"

section \<open>Evaluating the examples\<close>

lemmas run_defs =
  main_def run_def index_cooccur_def rename_columns_def pair_key_def COMMA_def
  process_pair_def tip_dist_val_def strain_check_def loc_levels_def tax_levels_def diff_level_def
  hgt_check_def in_index_def hgt_cols_def loc_cell_def cooccur_values_def headerline_def
  differs_def

lemmas ex_defs =
  taxa_ex_def ranks_ex_def tip_ex_def hgt_ex_def hgt_row_ex_def cooccur_ex_def header_ex_def

lemma split_XY: "split_on COMMA ''X,Y'' = [''X'', ''Y'']"
  by (simp add: COMMA_def)

lemma split_YX: "split_on COMMA ''Y,X'' = [''Y'', ''X'']"
  by (simp add: COMMA_def)

lemma split_XX: "split_on COMMA ''X,X'' = [''X'', ''X'']"
  by (simp add: COMMA_def)

lemma split_XZ: "split_on COMMA ''X,Z'' = [''X'', ''Z'']"
  by (simp add: COMMA_def)

lemma index_cooccur_ex: "index_cooccur cooccur_ex = Inr cooccur_tab_ex"
  by (simp add: index_cooccur_def rename_columns_def cooccur_ex_def cooccur_tab_ex_def
      pair_key_def COMMA_def)

lemma index_cooccur_self_pair_ex: "index_cooccur cooccur_self_pair_ex = Inr cooccur_tab_self_pair_ex"
  by (simp add: index_cooccur_def rename_columns_def cooccur_self_pair_ex_def
      cooccur_tab_self_pair_ex_def pair_key_def COMMA_def)

lemma loc_levels_X:
  "loc_levels taxa_ex ''X'' =
     Inr [Some ''d'', Some ''p'', Some ''c'', Some ''o'', Some ''f'', Some ''g'', Some ''sp1'', Some ''X'']"
  by (simp add: loc_levels_def tax_levels_def taxa_ex_def ranks_ex_def)

lemma loc_levels_Y:
  "loc_levels taxa_ex ''Y'' =
     Inr [Some ''d'', Some ''p'', Some ''c'', Some ''o'', Some ''f'', Some ''g'', Some ''sp1'', Some ''Y'']"
  by (simp add: loc_levels_def tax_levels_def taxa_ex_def ranks_ex_def)

lemma split_ZZ: "split_on COMMA ''Z,Z'' = [''Z'', ''Z'']"
  by (simp add: COMMA_def)

lemma index_cooccur_unknown_self_pair_ex:
  "index_cooccur cooccur_unknown_self_pair_ex = Inr cooccur_tab_unknown_self_pair_ex"
  by (simp add: index_cooccur_def rename_columns_def cooccur_unknown_self_pair_ex_def
      cooccur_tab_unknown_self_pair_ex_def pair_key_def COMMA_def)

lemma hgt_both_orders_index: "map fst hgt_both_orders_ex = [] @ ''X,Y'' # [''Y,X'']"
  by (simp add: hgt_both_orders_ex_def)

section \<open>Splitting and joining\<close>

lemma split_on_not_Nil: "split_on c s \<noteq> []"
  by (induction s) (auto split: list.splits)

lemma join_split_on: "join [c] (split_on c s) = s"
proof (induction s)
  case Nil
  show ?case by simp
next
  case (Cons x xs)
  obtain p ps where sp: "split_on c xs = p # ps"
    using split_on_not_Nil [of c xs] by (cases "split_on c xs") auto
  show ?case
  proof (cases "x = c")
    case True
    with Cons sp show ?thesis by simp
  next
    case False
    with Cons sp show ?thesis by (cases ps) auto
  qed
qed

lemma split_two_rejoin: "split_on c k = [a, b] \<Longrightarrow> a @ [c] @ b = k"
  using join_split_on [of c k] by simp

lemma split_on_parts: "p \<in> set (split_on c s) \<Longrightarrow> c \<notin> set p"
proof (induction s arbitrary: p)
  case Nil
  then show ?case by simp
next
  case (Cons x xs)
  obtain q qs where sp: "split_on c xs = q # qs"
    using split_on_not_Nil [of c xs] by (cases "split_on c xs") auto
  from Cons sp show ?case by (auto split: if_splits)
qed

lemma split_two_no_comma:
  assumes "split_on c k = [a, b]"
  shows "c \<notin> set a \<and> c \<notin> set b"
  using split_on_parts [of a c k] split_on_parts [of b c k] assms by simp

lemma separator_unique:
  "c \<notin> set i \<Longrightarrow> c \<notin> set j \<Longrightarrow> xs @ c # ys = i @ c # j \<Longrightarrow> xs = i \<and> ys = j"
proof (induction xs arbitrary: i)
  case Nil
  then show ?case by (cases i) auto
next
  case (Cons x xs)
  then show ?case by (cases i) auto
qed

section \<open>The keys of the co-occurrence index\<close>

lemma pair_key_sorted: "a \<le> b \<Longrightarrow> pair_key a b = a @ [COMMA] @ b"
  by (simp add: pair_key_def)

lemma pair_key_commute: "pair_key a b = pair_key b a"
  by (auto simp: pair_key_def)

lemma pair_key_is_literal:
  assumes "COMMA \<notin> set i" and "COMMA \<notin> set j" and "pair_key a b = i @ [COMMA] @ j"
  shows "i \<le> j"
proof (cases "a \<le> b")
  case True
  with assms(3) have "a @ COMMA # b = i @ COMMA # j" by (simp add: pair_key_def)
  with assms(1,2) have "a = i \<and> b = j" by (rule separator_unique)
  with True show ?thesis by simp
next
  case False
  with assms(3) have "b @ COMMA # a = i @ COMMA # j" by (simp add: pair_key_def)
  with assms(1,2) have "b = i \<and> a = j" by (rule separator_unique)
  with False show ?thesis by auto
qed

lemma index_rows_labels:
  "index_rows cols rows = Inr df \<Longrightarrow> (l, r) \<in> set df \<Longrightarrow> \<exists>a b. l = pair_key a b"
proof (induction rows arbitrary: df)
  case Nil
  then show ?case by simp
next
  case (Cons cells rows)
  from Cons.prems(1) obtain a b df' where
    df: "df = (pair_key a b, map_of (zip cols cells)) # df'" and rest: "index_rows cols rows = Inr df'"
    by (auto simp: Let_def split: option.splits sum.splits)
  show ?case
  proof (cases "(l, r) \<in> set df'")
    case True
    with rest show ?thesis by (rule Cons.IH)
  next
    case False
    with Cons.prems(2) df have "l = pair_key a b" by simp
    then show ?thesis by blast
  qed
qed

lemma index_cooccur_labels:
  "index_cooccur f = Inr cooccur_tab \<Longrightarrow> in_index l cooccur_tab \<Longrightarrow> \<exists>a b. l = pair_key a b"
  by (auto simp: index_cooccur_def in_index_def split: sum.splits dest: index_rows_labels)

text \<open>A key with one comma is in the computed index exactly when it is in sorted order and the
  pair has a row.\<close>

lemma literal_key_in_index:
  assumes "index_cooccur f = Inr cooccur_tab" and "COMMA \<notin> set i" and "COMMA \<notin> set j"
  shows "in_index (i @ [COMMA] @ j) cooccur_tab \<longleftrightarrow> i \<le> j \<and> in_index (pair_key i j) cooccur_tab"
proof
  assume lit: "in_index (i @ [COMMA] @ j) cooccur_tab"
  from index_cooccur_labels [OF assms(1) lit] obtain a b where "pair_key a b = i @ [COMMA] @ j"
    by auto
  with assms(2,3) have "i \<le> j" by (rule pair_key_is_literal)
  with lit show "i \<le> j \<and> in_index (pair_key i j) cooccur_tab"
    by (simp add: pair_key_sorted)
next
  assume "i \<le> j \<and> in_index (pair_key i j) cooccur_tab"
  then show "in_index (i @ [COMMA] @ j) cooccur_tab"
    by (auto simp: pair_key_sorted)
qed

section \<open>How the stages fail\<close>

lemma select_length: "select r cs = Inr vs \<Longrightarrow> length vs = length cs"
  by (induction cs arbitrary: vs) (auto split: option.splits sum.splits)

lemma select_failure: "select r cs = Inl e \<Longrightarrow> e = KeyError"
  by (induction cs) (auto split: option.splits sum.splits)

lemma loc_levels_length: "loc_levels taxa_tab taxon = Inr vs \<Longrightarrow> length vs = 8"
  by (auto simp: loc_levels_def tax_levels_def split: option.splits dest: select_length)

lemma loc_levels_failure: "loc_levels taxa_tab taxon = Inl e \<Longrightarrow> e = KeyError"
  by (auto simp: loc_levels_def split: option.splits dest: select_failure)

lemma index_rows_failure: "index_rows cols rows = Inl e \<Longrightarrow> e = KeyError"
  by (induction rows) (auto simp: Let_def split: option.splits sum.splits)

lemma index_cooccur_failure: "index_cooccur f = Inl e \<Longrightarrow> e = KeyError \<or> e = IndexError"
  by (auto simp: index_cooccur_def rename_columns_def
      split: sum.splits list.splits if_splits dest: index_rows_failure)

lemma tip_dist_val_failure: "tip_dist_val tip_dist taxon_i taxon_j = Inl e \<Longrightarrow> e = KeyError"
  by (auto simp: tip_dist_val_def split: if_splits option.splits)

lemma strain_check_failure:
  "strain_check taxa_tab taxon_i taxon_j = Inl e \<Longrightarrow>
     e = NotStrainLevel (taxon_i @ [COMMA] @ taxon_j)
   \<or> e = KeyError \<and> (loc_levels taxa_tab taxon_i = Inl KeyError \<or> loc_levels taxa_tab taxon_j = Inl KeyError)"
  by (auto simp: strain_check_def split: sum.splits if_splits dest: loc_levels_failure)

lemma hgt_check_failure:
  "hgt_check hgt_tab k r = Inl e \<Longrightarrow> e = NotInHGT k \<or> e = ReverseInHGT r"
  by (auto simp: hgt_check_def split: if_splits)

lemma hgt_cols_failure: "hgt_cols hgt_tab k = Inl e \<Longrightarrow> e = KeyError"
  by (auto simp: hgt_cols_def loc_cell_def split: sum.splits option.splits)

lemma cooccur_values_failure:
  "cooccur_values cooccur_tab msrs k r = Inl e \<Longrightarrow> e = KeyError \<or> e = ReverseInCooccur r"
  by (auto simp: cooccur_values_def split: if_splits option.splits dest: select_failure)

lemma cooccur_values_reverse:
  "cooccur_values cooccur_tab msrs k r = Inl (ReverseInCooccur x) \<Longrightarrow>
   \<not> in_index k cooccur_tab \<and> in_index r cooccur_tab"
  by (auto simp: cooccur_values_def split: if_splits option.splits dest: select_failure)

lemma process_pair_failure:
  assumes "process_pair msrs cooccur_tab tip_dist taxa_tab hgt_tab taxa_pair = Inl e"
  shows "\<not> FormatError e"
proof (cases taxa_pair)
  case Nil
  with assms show ?thesis by (auto simp: process_pair_def)
next
  case (Cons taxon_i rest)
  show ?thesis
  proof (cases rest)
    case Nil
    with Cons assms show ?thesis by (auto simp: process_pair_def)
  next
    case (Cons taxon_j rest')
    with \<open>taxa_pair = taxon_i # rest\<close> assms show ?thesis
      by (auto simp: process_pair_def Let_def split: sum.splits
          dest!: tip_dist_val_failure strain_check_failure hgt_check_failure hgt_cols_failure
            cooccur_values_failure)
  qed
qed

lemma process_pair_NotInHGT:
  "process_pair msrs cooccur_tab tip_dist taxa_tab hgt_tab [taxon_i, taxon_j] = Inl (NotInHGT x)
   \<Longrightarrow> \<not> in_index (taxon_i @ [COMMA] @ taxon_j) hgt_tab"
  by (auto simp: process_pair_def Let_def hgt_check_def hgt_cols_def loc_cell_def
      cooccur_values_def strain_check_def
      split: sum.splits if_splits option.splits
      dest: tip_dist_val_failure loc_levels_failure select_failure)

lemma process_pair_line:
  assumes "process_pair msrs cooccur_tab tip_dist taxa_tab hgt_tab [taxon_i, taxon_j] = Inr line"
  shows "\<exists>dist hcols vals.
           tip_dist_val tip_dist taxon_i taxon_j = Inr dist
         \<and> hgt_cols hgt_tab (taxon_i @ [COMMA] @ taxon_j) = Inr hcols
         \<and> cooccur_values cooccur_tab msrs (taxon_i @ [COMMA] @ taxon_j) (taxon_j @ [COMMA] @ taxon_i)
             = Inr vals
         \<and> line = (taxon_i @ [COMMA] @ taxon_j) @ TAB @ taxon_i @ TAB @ taxon_j @ TAB @ dist @ TAB
                    @ hcols @ TAB @ join TAB vals"
  using assms by (auto simp: process_pair_def Let_def split: sum.splits)

section \<open>How the run ends\<close>

lemma split_keys_Inr:
  "split_keys ks = Inr ps \<Longrightarrow>
   ps = map (split_on COMMA) ks \<and> (\<forall>k\<in>set ks. length (split_on COMMA k) = 2)"
  by (induction ks arbitrary: ps) (auto simp: Let_def split: if_splits sum.splits)

lemma split_keys_Inl:
  "split_keys ks = Inl e \<Longrightarrow> \<exists>k\<in>set ks. e = NotCorrectFormat k \<and> length (split_on COMMA k) \<noteq> 2"
  by (induction ks) (auto simp: Let_def split: if_splits sum.splits)

lemma split_keys_first_bad:
  "\<forall>k\<in>set pre. length (split_on COMMA k) = 2 \<Longrightarrow> length (split_on COMMA k0) \<noteq> 2 \<Longrightarrow>
   split_keys (pre @ k0 # post) = Inl (NotCorrectFormat k0)"
  by (induction pre) (auto simp: Let_def)

lemma run_pairs_ended:
  "snd (run_pairs msrs cooccur_tab tip_dist taxa_tab hgt_tab ps) = Some e \<Longrightarrow>
   \<exists>p\<in>set ps. process_pair msrs cooccur_tab tip_dist taxa_tab hgt_tab p = Inl e"
  by (induction ps) (auto split: sum.splits prod.splits)

lemma run_pairs_fails:
  "p \<in> set ps \<Longrightarrow> process_pair msrs cooccur_tab tip_dist taxa_tab hgt_tab p = Inl e \<Longrightarrow>
   \<exists>e'. snd (run_pairs msrs cooccur_tab tip_dist taxa_tab hgt_tab ps) = Some e'"
  by (induction ps) (auto split: sum.splits prod.splits)

lemma run_ended:
  assumes "snd (run cooccur_measure cooccur_tab tip_dist taxa_tab hgt_tab) = Some e"
  shows "(\<exists>k\<in>set (map fst hgt_tab). e = NotCorrectFormat k \<and> length (split_on COMMA k) \<noteq> 2)
       \<or> e = NoMeasures
       \<or> ((\<forall>k\<in>set (map fst hgt_tab). length (split_on COMMA k) = 2) \<and>
          (\<exists>k\<in>set (map fst hgt_tab).
             process_pair (split_on COMMA cooccur_measure) cooccur_tab tip_dist taxa_tab hgt_tab
               (split_on COMMA k) = Inl e))"
proof (cases "split_keys (map fst hgt_tab)")
  case (Inl e')
  with assms have "e' = e" by (simp add: run_def)
  with Inl show ?thesis using split_keys_Inl by blast
next
  case (Inr ps)
  note sk = split_keys_Inr [OF Inr]
  show ?thesis
  proof (cases "e = NoMeasures")
    case True
    then show ?thesis by simp
  next
    case False
    with assms Inr
    have "snd (run_pairs (split_on COMMA cooccur_measure) cooccur_tab tip_dist taxa_tab hgt_tab ps) = Some e"
      by (auto simp: run_def Let_def split: if_splits prod.splits)
    from run_pairs_ended [OF this] sk show ?thesis by auto
  qed
qed

text \<open>A key of the HGT table whose pair fails ends the run with a failure, that of this pair or
  that of an earlier one.\<close>

lemma run_fails_at_key:
  assumes "in_index k hgt_tab"
    and "process_pair (split_on COMMA cooccur_measure) cooccur_tab tip_dist taxa_tab hgt_tab
           (split_on COMMA k) = Inl e"
  shows "\<exists>e'. snd (run cooccur_measure cooccur_tab tip_dist taxa_tab hgt_tab) = Some e'"
proof (cases "split_keys (map fst hgt_tab)")
  case (Inl e')
  then show ?thesis by (simp add: run_def)
next
  case (Inr ps)
  from split_keys_Inr [OF Inr] assms(1) have "split_on COMMA k \<in> set ps"
    by (auto simp: in_index_def)
  from run_pairs_fails [OF this assms(2)] Inr show ?thesis
    by (auto simp: run_def Let_def split: prod.splits)
qed

lemma split_keys_all_two:
  "\<forall>k\<in>set ks. length (split_on COMMA k) = 2 \<Longrightarrow> split_keys ks = Inr (map (split_on COMMA) ks)"
  by (induction ks) (auto simp: Let_def)

lemma run_pairs_prefix:
  assumes "\<forall>p\<in>set pre. \<exists>line. process_pair msrs cooccur_tab tip_dist taxa_tab hgt_tab p = Inr line"
    and "process_pair msrs cooccur_tab tip_dist taxa_tab hgt_tab q = Inl e"
  shows "\<exists>lines. map Inr lines = map (process_pair msrs cooccur_tab tip_dist taxa_tab hgt_tab) pre
           \<and> run_pairs msrs cooccur_tab tip_dist taxa_tab hgt_tab (pre @ q # post) = (lines, Some e)"
  using assms(1)
proof (induction pre)
  case Nil
  with assms(2) show ?case by simp
next
  case (Cons p pre)
  then obtain line where p: "process_pair msrs cooccur_tab tip_dist taxa_tab hgt_tab p = Inr line"
    by auto
  from Cons obtain lines where
    "map Inr lines = map (process_pair msrs cooccur_tab tip_dist taxa_tab hgt_tab) pre"
    and "run_pairs msrs cooccur_tab tip_dist taxa_tab hgt_tab (pre @ q # post) = (lines, Some e)"
    by auto
  with p have "map Inr (line # lines) = map (process_pair msrs cooccur_tab tip_dist taxa_tab hgt_tab) (p # pre)
      \<and> run_pairs msrs cooccur_tab tip_dist taxa_tab hgt_tab ((p # pre) @ q # post) = (line # lines, Some e)"
    by simp
  then show ?case by blast
qed

text \<open>When every key has two parts and the keys before \<open>k\<close> are processed to the end, the run
  prints the header and their lines and ends with the failure of the pair of \<open>k\<close>.\<close>

lemma run_ends_at_key:
  assumes "map fst hgt_tab = pre @ k # post"
    and "\<forall>k'\<in>set (map fst hgt_tab). length (split_on COMMA k') = 2"
    and "\<forall>k'\<in>set pre. \<exists>line.
           process_pair (split_on COMMA cooccur_measure) cooccur_tab tip_dist taxa_tab hgt_tab
             (split_on COMMA k') = Inr line"
    and "process_pair (split_on COMMA cooccur_measure) cooccur_tab tip_dist taxa_tab hgt_tab
           (split_on COMMA k) = Inl e"
  shows "\<exists>lines.
           map Inr lines =
             map (\<lambda>k'. process_pair (split_on COMMA cooccur_measure) cooccur_tab tip_dist taxa_tab
                          hgt_tab (split_on COMMA k')) pre
         \<and> run cooccur_measure cooccur_tab tip_dist taxa_tab hgt_tab
             = (join TAB (headerline (split_on COMMA cooccur_measure)) # lines, Some e)"
proof -
  let ?M = "split_on COMMA cooccur_measure"
  have sk: "split_keys (map fst hgt_tab)
              = Inr (map (split_on COMMA) pre @ split_on COMMA k # map (split_on COMMA) post)"
    using split_keys_all_two [OF assms(2)] assms(1) by simp
  have ok: "\<forall>p\<in>set (map (split_on COMMA) pre). \<exists>line.
              process_pair ?M cooccur_tab tip_dist taxa_tab hgt_tab p = Inr line"
    using assms(3) by auto
  from run_pairs_prefix [OF ok assms(4), of "map (split_on COMMA) post"]
  obtain lines where
    l: "map Inr lines = map (process_pair ?M cooccur_tab tip_dist taxa_tab hgt_tab) (map (split_on COMMA) pre)"
    and r: "run_pairs ?M cooccur_tab tip_dist taxa_tab hgt_tab
              (map (split_on COMMA) pre @ split_on COMMA k # map (split_on COMMA) post) = (lines, Some e)"
    by blast
  have "length ?M \<noteq> 0" using split_on_not_Nil [of COMMA cooccur_measure] by simp
  with sk r have "run cooccur_measure cooccur_tab tip_dist taxa_tab hgt_tab
             = (join TAB (headerline ?M) # lines, Some e)"
    by (simp add: run_def Let_def)
  moreover from l have "map Inr lines =
             map (\<lambda>k'. process_pair ?M cooccur_tab tip_dist taxa_tab hgt_tab (split_on COMMA k')) pre"
    by (simp add: comp_def)
  ultimately show ?thesis by blast
qed

section \<open>The rank scan\<close>

lemma list_of_eight:
  assumes "length xs = 8"
  obtains a b c d e f g h where "xs = [a, b, c, d, e, f, g, h]"
  using assms by (auto simp: numeral_eq_Suc length_Suc_conv)

lemma scan_levels_none:
  "list_all2 (\<lambda>a b. \<not> differs a b) as bs \<Longrightarrow> scan_levels ls as bs = ''NO_DIFF_FOUND''"
proof (induction as bs arbitrary: ls rule: list_all2_induct)
  case Nil
  show ?case by (cases ls) auto
next
  case (Cons a as b bs)
  then show ?case by (cases ls) auto
qed

lemma scan_levels_first:
  "n < length ls \<Longrightarrow> n < length as \<Longrightarrow> n < length bs \<Longrightarrow>
   list_all2 (\<lambda>a b. \<not> differs a b) (take n as) (take n bs) \<Longrightarrow> differs (as ! n) (bs ! n)
   \<Longrightarrow> scan_levels ls as bs = ls ! n"
proof (induction ls as bs arbitrary: n rule: scan_levels.induct)
  case (1 l ls a as b bs)
  then show ?case by (cases n) auto
qed auto

lemma diff_level_Strain:
  assumes "length vi = 8" "length vj = 8"
  shows "diff_level vi vj = ''Strain'' \<longleftrightarrow>
           list_all2 (\<lambda>a b. \<not> differs a b) (take 7 vi) (take 7 vj) \<and> differs (vi ! 7) (vj ! 7)"
proof -
  obtain a b c d e f g h where vi: "vi = [a, b, c, d, e, f, g, h]"
    using assms(1) by (rule list_of_eight)
  obtain a' b' c' d' e' f' g' h' where vj: "vj = [a', b', c', d', e', f', g', h']"
    using assms(2) by (rule list_of_eight)
  show ?thesis
    unfolding vi vj diff_level_def tax_levels_def by (simp add: numeral_eq_Suc)
qed

lemma strain_check_eq:
  assumes "loc_levels taxa_tab taxon_i = Inr vi" and "loc_levels taxa_tab taxon_j = Inr vj"
  shows "strain_check taxa_tab taxon_i taxon_j =
           (if list_all2 (\<lambda>a b. \<not> differs a b) (take 7 vi) (take 7 vj) \<and> differs (vi ! 7) (vj ! 7)
            then Inr ()
            else Inl (NotStrainLevel (taxon_i @ [COMMA] @ taxon_j)))"
  using assms diff_level_Strain [OF loc_levels_length [OF assms(1)] loc_levels_length [OF assms(2)]]
  by (simp add: strain_check_def)

text \<open>Where no rank is missing, not to differ is to be the same.\<close>

lemma differs_present: "a \<noteq> None \<Longrightarrow> b \<noteq> None \<Longrightarrow> differs a b \<longleftrightarrow> a \<noteq> b"
  by (cases a; cases b) (simp_all add: differs_def)

lemma no_missing_same:
  "None \<notin> set xs \<Longrightarrow> None \<notin> set ys \<Longrightarrow> list_all2 (\<lambda>a b. \<not> differs a b) xs ys \<longleftrightarrow> xs = ys"
proof (induction xs arbitrary: ys)
  case Nil
  then show ?case by auto
next
  case (Cons x xs)
  show ?case
  proof (cases ys)
    case Nil
    then show ?thesis by simp
  next
    case (Cons y ys')
    from Cons Cons.prems have x: "x \<noteq> None" and y: "y \<noteq> None"
      by (cases x, simp_all) (cases y, simp_all)
    from Cons Cons.prems have "None \<notin> set xs" "None \<notin> set ys'"
      by simp_all
    then have "list_all2 (\<lambda>a b. \<not> differs a b) xs ys' \<longleftrightarrow> xs = ys'"
      by (rule Cons.IH)
    with differs_present [OF x y] Cons show ?thesis
      by simp
  qed
qed

lemma no_missing_gate:
  assumes "length vi = 8" "length vj = 8" "None \<notin> set vi" "None \<notin> set vj"
  shows "list_all2 (\<lambda>a b. \<not> differs a b) (take 7 vi) (take 7 vj) \<and> differs (vi ! 7) (vj ! 7)
         \<longleftrightarrow> take 7 vi = take 7 vj \<and> vi ! 7 \<noteq> vj ! 7"
proof -
  have "None \<notin> set (take 7 vi)" "None \<notin> set (take 7 vj)"
    using assms(3,4) by (auto dest: in_set_takeD)
  then have a: "list_all2 (\<lambda>a b. \<not> differs a b) (take 7 vi) (take 7 vj) \<longleftrightarrow> take 7 vi = take 7 vj"
    by (rule no_missing_same)
  have "vi ! 7 \<in> set vi" "vj ! 7 \<in> set vj" using assms(1,2) by simp_all
  with assms(3,4) have "vi ! 7 \<noteq> None" "vj ! 7 \<noteq> None" by metis+
  then have "differs (vi ! 7) (vj ! 7) \<longleftrightarrow> vi ! 7 \<noteq> vj ! 7" by (rule differs_present)
  with a show ?thesis by simp
qed

section \<open>The co-occurrence lookup\<close>

text \<open>
  Claim C1, as the specification words it, fails: the program does not look the pair up under its
  canonical key. The HGT key \<open>Y,X\<close> has the canonical key \<open>X,Y\<close>, under which the co-occurrence
  table of the example holds the value 0.42; the lookup of the specification gives that value,
  and the program ends the run with the exit "Reverse taxa_combo found in co-occurrence table".
\<close>

theorem canonical_lookup_counterexample:
  "pair_key ''Y'' ''X'' = ''X,Y''
   \<and> index_cooccur cooccur_ex = Inr cooccur_tab_ex
   \<and> spec_cooccur_values cooccur_tab_ex [''jaccard''] ''Y'' ''X'' = Inr [''0.42'']
   \<and> main ''jaccard'' cooccur_ex tip_ex taxa_ex hgt_reversed_ex
       = ([header_ex], Some (ReverseInCooccur ''X,Y''))"
  by (simp add: run_defs ex_defs hgt_reversed_ex_def spec_cooccur_values_def cooccur_tab_ex_def)

text \<open>
  Claim C1, amended. For a pair \<open>taxon_i\<close>, \<open>taxon_j\<close> from the HGT table, the measures are looked
  up in the co-occurrence table under the key of the HGT table as it is written,
  \<open>taxon_i,taxon_j\<close>, which is in the index exactly when \<open>taxon_i \<le> taxon_j\<close> and the pair has a
  row. When it is there (and labels one row), each measure is read from that row. When it is
  absent, the reversed key \<open>taxon_j,taxon_i\<close> is tried, which is in the index exactly when
  \<open>taxon_j \<le> taxon_i\<close> and the pair has a row, and the pair then ends the run with a consistency
  error. When neither key is there, "NA" stands for each measure. The values found are the last
  columns of the line printed for the pair.
\<close>

theorem cooccur_lookup_literal_key:
  assumes "index_cooccur cooccur_file = Inr cooccur_tab"
    and "split_on COMMA k = [taxon_i, taxon_j]"
  shows "(in_index k cooccur_tab \<longleftrightarrow>
            taxon_i \<le> taxon_j \<and> in_index (pair_key taxon_i taxon_j) cooccur_tab)
       \<and> (in_index (taxon_j @ [COMMA] @ taxon_i) cooccur_tab \<longleftrightarrow>
            taxon_j \<le> taxon_i \<and> in_index (pair_key taxon_i taxon_j) cooccur_tab)
       \<and> (distinct (map fst cooccur_tab) \<and> (k, cooccur_row) \<in> set cooccur_tab \<longrightarrow>
            cooccur_values cooccur_tab msrs k (taxon_j @ [COMMA] @ taxon_i)
              = select cooccur_row msrs)
       \<and> (\<not> in_index k cooccur_tab \<and> in_index (taxon_j @ [COMMA] @ taxon_i) cooccur_tab \<longrightarrow>
            cooccur_values cooccur_tab msrs k (taxon_j @ [COMMA] @ taxon_i)
              = Inl (ReverseInCooccur (taxon_j @ [COMMA] @ taxon_i))
            \<and> ConsistencyError (ReverseInCooccur (taxon_j @ [COMMA] @ taxon_i)))
       \<and> (\<not> in_index k cooccur_tab \<and> \<not> in_index (taxon_j @ [COMMA] @ taxon_i) cooccur_tab \<longrightarrow>
            cooccur_values cooccur_tab msrs k (taxon_j @ [COMMA] @ taxon_i)
              = Inr (replicate (length msrs) ''NA''))
       \<and> (process_pair msrs cooccur_tab tip_dist taxa_tab hgt_tab [taxon_i, taxon_j] = Inr line \<longrightarrow>
            (\<exists>front vals.
               cooccur_values cooccur_tab msrs k (taxon_j @ [COMMA] @ taxon_i) = Inr vals
             \<and> line = front @ TAB @ join TAB vals))"
proof -
  have k: "taxon_i @ [COMMA] @ taxon_j = k"
    using assms(2) by (rule split_two_rejoin)
  have nc: "COMMA \<notin> set taxon_i" "COMMA \<notin> set taxon_j"
    using split_two_no_comma [OF assms(2)] by simp_all
  have a: "in_index k cooccur_tab \<longleftrightarrow>
      taxon_i \<le> taxon_j \<and> in_index (pair_key taxon_i taxon_j) cooccur_tab"
    using literal_key_in_index [OF assms(1) nc] k by simp
  have b: "in_index (taxon_j @ [COMMA] @ taxon_i) cooccur_tab \<longleftrightarrow>
      taxon_j \<le> taxon_i \<and> in_index (pair_key taxon_i taxon_j) cooccur_tab"
    using literal_key_in_index [OF assms(1) nc(2) nc(1)] pair_key_commute [of taxon_i taxon_j]
    by simp
  have c: "cooccur_values cooccur_tab msrs k (taxon_j @ [COMMA] @ taxon_i) = select cooccur_row msrs"
    if "distinct (map fst cooccur_tab) \<and> (k, cooccur_row) \<in> set cooccur_tab"
  proof -
    from that have "map_of cooccur_tab k = Some cooccur_row" by simp
    moreover from that have "in_index k cooccur_tab" by (force simp: in_index_def)
    ultimately show ?thesis by (simp add: cooccur_values_def)
  qed
  have d: "cooccur_values cooccur_tab msrs k (taxon_j @ [COMMA] @ taxon_i)
              = Inl (ReverseInCooccur (taxon_j @ [COMMA] @ taxon_i))
            \<and> ConsistencyError (ReverseInCooccur (taxon_j @ [COMMA] @ taxon_i))"
    if "\<not> in_index k cooccur_tab \<and> in_index (taxon_j @ [COMMA] @ taxon_i) cooccur_tab"
    using that by (simp add: cooccur_values_def)
  have e: "cooccur_values cooccur_tab msrs k (taxon_j @ [COMMA] @ taxon_i)
              = Inr (replicate (length msrs) ''NA'')"
    if "\<not> in_index k cooccur_tab \<and> \<not> in_index (taxon_j @ [COMMA] @ taxon_i) cooccur_tab"
    using that by (simp add: cooccur_values_def)
  have f: "\<exists>front vals.
               cooccur_values cooccur_tab msrs k (taxon_j @ [COMMA] @ taxon_i) = Inr vals
             \<and> line = front @ TAB @ join TAB vals"
    if "process_pair msrs cooccur_tab tip_dist taxa_tab hgt_tab [taxon_i, taxon_j] = Inr line"
  proof -
    from process_pair_line [OF that] k obtain dist hcols vals where
      v: "cooccur_values cooccur_tab msrs k (taxon_j @ [COMMA] @ taxon_i) = Inr vals"
      and l: "line = k @ TAB @ taxon_i @ TAB @ taxon_j @ TAB @ dist @ TAB @ hcols @ TAB @ join TAB vals"
      by auto
    from l have "line = (k @ TAB @ taxon_i @ TAB @ taxon_j @ TAB @ dist @ TAB @ hcols)
                   @ TAB @ join TAB vals"
      by simp
    with v show ?thesis by blast
  qed
  from a b c d e f show ?thesis by blast
qed

theorem cooccur_lookup_literal_key_witness:
  "index_cooccur cooccur_ex = Inr cooccur_tab_ex
   \<and> split_on COMMA ''X,Y'' = [''X'', ''Y'']
   \<and> cooccur_values cooccur_tab_ex [''jaccard''] ''X,Y'' (''Y'' @ [COMMA] @ ''X'') = Inr [''0.42'']
   \<and> split_on COMMA ''Y,X'' = [''Y'', ''X'']
   \<and> cooccur_values cooccur_tab_ex [''jaccard''] ''Y,X'' (''X'' @ [COMMA] @ ''Y'')
       = Inl (ReverseInCooccur (''X'' @ [COMMA] @ ''Y''))
   \<and> split_on COMMA ''X,Z'' = [''X'', ''Z'']
   \<and> cooccur_values cooccur_tab_ex [''jaccard''] ''X,Z'' (''Z'' @ [COMMA] @ ''X'') = Inr [''NA'']"
proof -
  let ?r = "map_of (zip [''taxon_i'', ''taxon_j'', ''jaccard''] [''X'', ''Y'', ''0.42''])"
  have dm: "distinct (map fst cooccur_tab_ex) \<and> (''X,Y'', ?r) \<in> set cooccur_tab_ex"
    by (simp add: cooccur_tab_ex_def)
  have s: "select ?r [''jaccard''] = Inr [''0.42'']"
    by simp
  have yx: "\<not> in_index ''Y,X'' cooccur_tab_ex \<and> in_index (''X'' @ [COMMA] @ ''Y'') cooccur_tab_ex"
    by (simp add: in_index_def cooccur_tab_ex_def COMMA_def)
  have xz: "\<not> in_index ''X,Z'' cooccur_tab_ex \<and> \<not> in_index (''Z'' @ [COMMA] @ ''X'') cooccur_tab_ex"
    by (simp add: in_index_def cooccur_tab_ex_def COMMA_def)
  have "cooccur_values cooccur_tab_ex [''jaccard''] ''X,Y'' (''Y'' @ [COMMA] @ ''X'')
          = select ?r [''jaccard'']"
    using cooccur_lookup_literal_key [OF index_cooccur_ex split_XY,
        where msrs = "[''jaccard'']" and cooccur_row = ?r] dm
    by blast
  with s have v1: "cooccur_values cooccur_tab_ex [''jaccard''] ''X,Y'' (''Y'' @ [COMMA] @ ''X'')
          = Inr [''0.42'']"
    by simp
  have v2: "cooccur_values cooccur_tab_ex [''jaccard''] ''Y,X'' (''X'' @ [COMMA] @ ''Y'')
       = Inl (ReverseInCooccur (''X'' @ [COMMA] @ ''Y''))"
    using cooccur_lookup_literal_key [OF index_cooccur_ex split_YX, where msrs = "[''jaccard'']"] yx
    by blast
  have "cooccur_values cooccur_tab_ex [''jaccard''] ''X,Z'' (''Z'' @ [COMMA] @ ''X'')
       = Inr (replicate (length [''jaccard'']) ''NA'')"
    using cooccur_lookup_literal_key [OF index_cooccur_ex split_XZ, where msrs = "[''jaccard'']"] xz
    by blast
  then have v3: "cooccur_values cooccur_tab_ex [''jaccard''] ''X,Z'' (''Z'' @ [COMMA] @ ''X'')
       = Inr [''NA'']"
    by simp
  from index_cooccur_ex split_XY split_YX split_XZ v1 v2 v3 show ?thesis by blast
qed

section \<open>The reversed key in the co-occurrence table\<close>

text \<open>
  Claim C2, as the specification words it, fails. A co-occurrence file that holds the pair of
  \<open>X\<close> and \<open>Y\<close> in both orders is not found out: line 55 labels both rows \<open>X,Y\<close>, the test of
  line 108 succeeds for the key \<open>X,Y\<close> of the HGT table, line 112 is not reached, and the run
  ends normally. In the index itself a key stands with its reversed key only when the two taxa
  are one taxon; the pair \<open>Z,Z\<close> of a taxon that the taxonomic table does not have then ends the
  run with the uncaught \<^verbatim>\<open>KeyError\<close>, which is no consistency error.
\<close>

theorem both_orders_in_cooccur_counterexample:
  "(case index_cooccur cooccur_both_orders_ex of Inl e \<Rightarrow> [] | Inr df \<Rightarrow> map fst df)
     = [''X,Y'', ''X,Y'']
   \<and> snd (main ''jaccard'' cooccur_both_orders_ex tip_ex taxa_ex hgt_ex) = None
   \<and> index_cooccur cooccur_unknown_self_pair_ex = Inr cooccur_tab_unknown_self_pair_ex
   \<and> split_on COMMA ''Z,Z'' = [''Z'', ''Z'']
   \<and> in_index ''Z,Z'' cooccur_tab_unknown_self_pair_ex
   \<and> in_index (''Z'' @ [COMMA] @ ''Z'') cooccur_tab_unknown_self_pair_ex
   \<and> main ''jaccard'' cooccur_unknown_self_pair_ex tip_ex taxa_ex hgt_unknown_self_pair_ex
       = ([header_ex], Some KeyError)
   \<and> \<not> ConsistencyError KeyError"
  by (simp add: run_defs ex_defs cooccur_both_orders_ex_def cooccur_unknown_self_pair_ex_def
      cooccur_tab_unknown_self_pair_ex_def hgt_unknown_self_pair_ex_def)

text \<open>
  Claim C2, amended. The index of the co-occurrence table holds sorted keys only, so a key of the
  HGT table and its reversed key are both in it only for a pair of one taxon with itself. The
  co-occurrence check of a pair ends with a consistency error exactly when the key of the pair
  is not in the index and its reversed key is, which is exactly when \<open>taxon_j < taxon_i\<close> and
  the pair has a row in the co-occurrence table; a pair whose own key is in the index is never
  ended by this check. The error is "Reverse taxa_combo found in co-occurrence table" with the
  reversed key. A pair that reaches the check with it gets no output line; when every key has
  two parts and the keys before it were processed to the end, the run prints their lines and ends
  there with that error.
\<close>

theorem reverse_in_cooccur_check:
  assumes "index_cooccur cooccur_file = Inr cooccur_tab"
    and "split_on COMMA k = [taxon_i, taxon_j]"
  shows "(in_index k cooccur_tab \<and> in_index (taxon_j @ [COMMA] @ taxon_i) cooccur_tab
            \<longrightarrow> taxon_i = taxon_j)
       \<and> ((\<exists>e. cooccur_values cooccur_tab msrs k (taxon_j @ [COMMA] @ taxon_i) = Inl e
                \<and> ConsistencyError e)
            \<longleftrightarrow> \<not> in_index k cooccur_tab \<and> in_index (taxon_j @ [COMMA] @ taxon_i) cooccur_tab)
       \<and> (\<not> in_index k cooccur_tab \<and> in_index (taxon_j @ [COMMA] @ taxon_i) cooccur_tab
            \<longleftrightarrow> taxon_j < taxon_i \<and> in_index (pair_key taxon_i taxon_j) cooccur_tab)
       \<and> (\<not> in_index k cooccur_tab \<and> in_index (taxon_j @ [COMMA] @ taxon_i) cooccur_tab \<longrightarrow>
            cooccur_values cooccur_tab msrs k (taxon_j @ [COMMA] @ taxon_i)
              = Inl (ReverseInCooccur (taxon_j @ [COMMA] @ taxon_i)))
       \<and> (\<not> in_index k cooccur_tab \<and> in_index (taxon_j @ [COMMA] @ taxon_i) cooccur_tab
            \<and> tip_dist_val tip_dist taxon_i taxon_j = Inr dist
            \<and> strain_check taxa_tab taxon_i taxon_j = Inr ()
            \<and> hgt_check hgt_tab k (taxon_j @ [COMMA] @ taxon_i) = Inr ()
            \<and> hgt_cols hgt_tab k = Inr hcols \<longrightarrow>
          process_pair msrs cooccur_tab tip_dist taxa_tab hgt_tab [taxon_i, taxon_j]
            = Inl (ReverseInCooccur (taxon_j @ [COMMA] @ taxon_i)))
       \<and> (\<not> in_index k cooccur_tab \<and> in_index (taxon_j @ [COMMA] @ taxon_i) cooccur_tab
            \<and> tip_dist_val tip_dist taxon_i taxon_j = Inr dist
            \<and> strain_check taxa_tab taxon_i taxon_j = Inr ()
            \<and> hgt_check hgt_tab k (taxon_j @ [COMMA] @ taxon_i) = Inr ()
            \<and> hgt_cols hgt_tab k = Inr hcols
            \<and> map fst hgt_tab = pre @ k # post
            \<and> (\<forall>k'\<in>set (map fst hgt_tab). length (split_on COMMA k') = 2)
            \<and> (\<forall>k'\<in>set pre. \<exists>line.
                  process_pair (split_on COMMA cooccur_measure) cooccur_tab tip_dist taxa_tab
                    hgt_tab (split_on COMMA k') = Inr line) \<longrightarrow>
          (\<exists>lines.
             map Inr lines =
               map (\<lambda>k'. process_pair (split_on COMMA cooccur_measure) cooccur_tab tip_dist
                            taxa_tab hgt_tab (split_on COMMA k')) pre
           \<and> main cooccur_measure cooccur_file tip_dist taxa_tab hgt_tab
               = (join TAB (headerline (split_on COMMA cooccur_measure)) # lines,
                  Some (ReverseInCooccur (taxon_j @ [COMMA] @ taxon_i)))))"
proof -
  let ?r = "taxon_j @ [COMMA] @ taxon_i"
  have k: "taxon_i @ [COMMA] @ taxon_j = k" using assms(2) by (rule split_two_rejoin)
  have nc: "COMMA \<notin> set taxon_i" "COMMA \<notin> set taxon_j"
    using split_two_no_comma [OF assms(2)] by simp_all
  have a: "in_index k cooccur_tab \<longleftrightarrow>
      taxon_i \<le> taxon_j \<and> in_index (pair_key taxon_i taxon_j) cooccur_tab"
    using literal_key_in_index [OF assms(1) nc] k by simp
  have b: "in_index ?r cooccur_tab \<longleftrightarrow>
      taxon_j \<le> taxon_i \<and> in_index (pair_key taxon_i taxon_j) cooccur_tab"
    using literal_key_in_index [OF assms(1) nc(2) nc(1)] pair_key_commute [of taxon_i taxon_j]
    by simp
  have one: "in_index k cooccur_tab \<and> in_index ?r cooccur_tab \<longrightarrow> taxon_i = taxon_j"
    using a b by auto
  have rev: "cooccur_values cooccur_tab ms k ?r = Inl (ReverseInCooccur ?r)"
    if "\<not> in_index k cooccur_tab \<and> in_index ?r cooccur_tab" for ms
    using that by (simp add: cooccur_values_def)
  have two: "(\<exists>e. cooccur_values cooccur_tab msrs k ?r = Inl e \<and> ConsistencyError e)
            \<longleftrightarrow> \<not> in_index k cooccur_tab \<and> in_index ?r cooccur_tab"
  proof
    assume "\<exists>e. cooccur_values cooccur_tab msrs k ?r = Inl e \<and> ConsistencyError e"
    then obtain e where e: "cooccur_values cooccur_tab msrs k ?r = Inl e" and c: "ConsistencyError e"
      by blast
    from cooccur_values_failure [OF e] c have "e = ReverseInCooccur ?r" by auto
    with e show "\<not> in_index k cooccur_tab \<and> in_index ?r cooccur_tab"
      by (auto dest: cooccur_values_reverse)
  next
    assume "\<not> in_index k cooccur_tab \<and> in_index ?r cooccur_tab"
    from rev [OF this] show "\<exists>e. cooccur_values cooccur_tab msrs k ?r = Inl e \<and> ConsistencyError e"
      by simp
  qed
  have three: "\<not> in_index k cooccur_tab \<and> in_index ?r cooccur_tab
            \<longleftrightarrow> taxon_j < taxon_i \<and> in_index (pair_key taxon_i taxon_j) cooccur_tab"
    using a b by auto
  have pp: "process_pair ms cooccur_tab tip_dist taxa_tab hgt_tab [taxon_i, taxon_j]
            = Inl (ReverseInCooccur ?r)"
    if "\<not> in_index k cooccur_tab \<and> in_index ?r cooccur_tab
            \<and> tip_dist_val tip_dist taxon_i taxon_j = Inr dist
            \<and> strain_check taxa_tab taxon_i taxon_j = Inr ()
            \<and> hgt_check hgt_tab k ?r = Inr ()
            \<and> hgt_cols hgt_tab k = Inr hcols" for ms
  proof -
    from that have "cooccur_values cooccur_tab ms k ?r = Inl (ReverseInCooccur ?r)"
      using rev by blast
    with that k show ?thesis by (simp add: process_pair_def)
  qed
  have rn: "\<exists>lines.
             map Inr lines =
               map (\<lambda>k'. process_pair (split_on COMMA cooccur_measure) cooccur_tab tip_dist
                            taxa_tab hgt_tab (split_on COMMA k')) pre
           \<and> main cooccur_measure cooccur_file tip_dist taxa_tab hgt_tab
               = (join TAB (headerline (split_on COMMA cooccur_measure)) # lines,
                  Some (ReverseInCooccur ?r))"
    if h: "\<not> in_index k cooccur_tab \<and> in_index ?r cooccur_tab
            \<and> tip_dist_val tip_dist taxon_i taxon_j = Inr dist
            \<and> strain_check taxa_tab taxon_i taxon_j = Inr ()
            \<and> hgt_check hgt_tab k ?r = Inr ()
            \<and> hgt_cols hgt_tab k = Inr hcols
            \<and> map fst hgt_tab = pre @ k # post
            \<and> (\<forall>k'\<in>set (map fst hgt_tab). length (split_on COMMA k') = 2)
            \<and> (\<forall>k'\<in>set pre. \<exists>line.
                  process_pair (split_on COMMA cooccur_measure) cooccur_tab tip_dist taxa_tab
                    hgt_tab (split_on COMMA k') = Inr line)"
  proof -
    from h have "\<not> in_index k cooccur_tab \<and> in_index ?r cooccur_tab
            \<and> tip_dist_val tip_dist taxon_i taxon_j = Inr dist
            \<and> strain_check taxa_tab taxon_i taxon_j = Inr ()
            \<and> hgt_check hgt_tab k ?r = Inr ()
            \<and> hgt_cols hgt_tab k = Inr hcols"
      by blast
    from pp [OF this, of "split_on COMMA cooccur_measure"] assms(2)
    have bad: "process_pair (split_on COMMA cooccur_measure) cooccur_tab tip_dist taxa_tab hgt_tab
            (split_on COMMA k) = Inl (ReverseInCooccur ?r)"
      by simp
    from h have idx: "map fst hgt_tab = pre @ k # post"
      and tw: "\<forall>k'\<in>set (map fst hgt_tab). length (split_on COMMA k') = 2"
      and ok: "\<forall>k'\<in>set pre. \<exists>line.
                  process_pair (split_on COMMA cooccur_measure) cooccur_tab tip_dist taxa_tab
                    hgt_tab (split_on COMMA k') = Inr line"
      by blast+
    from run_ends_at_key [OF idx tw ok bad] assms(1) show ?thesis
      by (simp add: main_def)
  qed
  from one two three rev [of msrs] pp [of msrs] rn show ?thesis by blast
qed

theorem reverse_in_cooccur_check_witness:
  "index_cooccur cooccur_ex = Inr cooccur_tab_ex
   \<and> split_on COMMA ''Y,X'' = [''Y'', ''X'']
   \<and> \<not> in_index ''Y,X'' cooccur_tab_ex \<and> in_index (''X'' @ [COMMA] @ ''Y'') cooccur_tab_ex
   \<and> ''X'' < ''Y''
   \<and> cooccur_values cooccur_tab_ex [''jaccard''] ''Y,X'' (''X'' @ [COMMA] @ ''Y'')
       = Inl (ReverseInCooccur (''X'' @ [COMMA] @ ''Y''))
   \<and> process_pair [''jaccard''] cooccur_tab_ex tip_ex taxa_ex hgt_reversed_ex [''Y'', ''X'']
       = Inl (ReverseInCooccur (''X'' @ [COMMA] @ ''Y''))
   \<and> main ''jaccard'' cooccur_ex tip_ex taxa_ex hgt_reversed_ex
       = ([header_ex], Some (ReverseInCooccur ''X,Y''))"
proof -
  have yx: "\<not> in_index ''Y,X'' cooccur_tab_ex \<and> in_index (''X'' @ [COMMA] @ ''Y'') cooccur_tab_ex"
    by (simp add: in_index_def cooccur_tab_ex_def COMMA_def)
  have lt: "''X'' < ''Y''" by simp
  have st: "tip_dist_val tip_ex ''Y'' ''X'' = Inr ''0.13''
      \<and> strain_check taxa_ex ''Y'' ''X'' = Inr ()
      \<and> hgt_check hgt_reversed_ex ''Y,X'' (''X'' @ [COMMA] @ ''Y'') = Inr ()
      \<and> hgt_cols hgt_reversed_ex ''Y,X'' = Inr (''sp1'' @ TAB @ ''5'')"
    by (simp add: run_defs ex_defs hgt_reversed_ex_def)
  have m: "main ''jaccard'' cooccur_ex tip_ex taxa_ex hgt_reversed_ex
       = ([header_ex], Some (ReverseInCooccur ''X,Y''))"
    by (simp add: run_defs ex_defs hgt_reversed_ex_def)
  from yx st
    reverse_in_cooccur_check [OF index_cooccur_ex split_YX, where msrs = "[''jaccard'']"
      and tip_dist = tip_ex and taxa_tab = taxa_ex and hgt_tab = hgt_reversed_ex
      and dist = "''0.13''" and hcols = "''sp1'' @ TAB @ ''5''"]
  have "cooccur_values cooccur_tab_ex [''jaccard''] ''Y,X'' (''X'' @ [COMMA] @ ''Y'')
       = Inl (ReverseInCooccur (''X'' @ [COMMA] @ ''Y''))
   \<and> process_pair [''jaccard''] cooccur_tab_ex tip_ex taxa_ex hgt_reversed_ex [''Y'', ''X'']
       = Inl (ReverseInCooccur (''X'' @ [COMMA] @ ''Y''))"
    by blast
  with index_cooccur_ex split_YX yx lt m show ?thesis by blast
qed

section \<open>The format of the HGT keys\<close>

text \<open>
  Claim C3, as the specification words it, fails: a key with two parts of which one is empty
  passes the format check. The key \<open>X,\<close> splits into \<open>X\<close> and the empty string, the loop of
  lines 60 to 65 accepts it, the header is printed, and the run ends on the lookup of the empty
  taxon in the taxonomic table, which is not a format error.
\<close>

theorem empty_component_counterexample:
  "split_on COMMA ''X,'' = [''X'', '''']
   \<and> split_keys (map fst hgt_empty_part_ex) = Inr [[''X'', '''']]
   \<and> main ''jaccard'' cooccur_ex tip_ex taxa_ex hgt_empty_part_ex = ([header_ex], Some KeyError)
   \<and> \<not> FormatError KeyError"
  by (simp add: run_defs ex_defs hgt_empty_part_ex_def)

text \<open>
  Claim C3, amended. Splitting a key of the HGT table on commas must give exactly two parts,
  empty or not. The first key that gives another number of parts ends the run with the format
  error that names it, before the header and before any data line is printed. When every key
  gives two parts, the run never ends with a format error.
\<close>

theorem format_check:
  "(map fst hgt_tab = pre @ k0 # post \<and> (\<forall>k\<in>set pre. length (split_on COMMA k) = 2)
      \<and> length (split_on COMMA k0) \<noteq> 2 \<longrightarrow>
    run cooccur_measure cooccur_tab tip_dist taxa_tab hgt_tab = ([], Some (NotCorrectFormat k0))
    \<and> FormatError (NotCorrectFormat k0))
   \<and> ((\<forall>k\<in>set (map fst hgt_tab). length (split_on COMMA k) = 2) \<longrightarrow>
      (\<forall>e. snd (run cooccur_measure cooccur_tab tip_dist taxa_tab hgt_tab) = Some e
           \<longrightarrow> \<not> FormatError e))"
proof (intro conjI impI allI)
  assume "map fst hgt_tab = pre @ k0 # post \<and> (\<forall>k\<in>set pre. length (split_on COMMA k) = 2)
      \<and> length (split_on COMMA k0) \<noteq> 2"
  then have "split_keys (map fst hgt_tab) = Inl (NotCorrectFormat k0)"
    by (simp add: split_keys_first_bad)
  then show "run cooccur_measure cooccur_tab tip_dist taxa_tab hgt_tab = ([], Some (NotCorrectFormat k0))"
    by (simp add: run_def)
next
  show "FormatError (NotCorrectFormat k0)" by simp
next
  fix e
  assume two: "\<forall>k\<in>set (map fst hgt_tab). length (split_on COMMA k) = 2"
    and ended: "snd (run cooccur_measure cooccur_tab tip_dist taxa_tab hgt_tab) = Some e"
  from run_ended [OF ended] two show "\<not> FormatError e"
    by (auto dest: process_pair_failure)
qed

theorem format_check_witness:
  "map fst hgt_three_parts_ex = [''X,Y''] @ ''X,Y,Z'' # []
   \<and> length (split_on COMMA ''X,Y'') = 2
   \<and> length (split_on COMMA ''X,Y,Z'') = 3
   \<and> run ''jaccard'' cooccur_tab_ex tip_ex taxa_ex hgt_three_parts_ex
       = ([], Some (NotCorrectFormat ''X,Y,Z''))
   \<and> length (split_on COMMA ''X,'') = 2
   \<and> snd (run ''jaccard'' cooccur_tab_ex tip_ex taxa_ex hgt_empty_part_ex) = Some KeyError
   \<and> \<not> FormatError KeyError"
proof -
  have a: "map fst hgt_three_parts_ex = [''X,Y''] @ ''X,Y,Z'' # []"
    by (simp add: hgt_three_parts_ex_def)
  have b: "\<forall>k\<in>set [''X,Y'']. length (split_on COMMA k) = 2" by (simp add: COMMA_def)
  have b': "length (split_on COMMA ''X,Y'') = 2" by (simp add: COMMA_def)
  have c: "length (split_on COMMA ''X,Y,Z'') = 3" by (simp add: COMMA_def)
  have c': "length (split_on COMMA ''X,Y,Z'') \<noteq> 2" by (simp add: COMMA_def)
  have d: "\<forall>k\<in>set (map fst hgt_empty_part_ex). length (split_on COMMA k) = 2"
    by (simp add: hgt_empty_part_ex_def COMMA_def)
  have d': "length (split_on COMMA ''X,'') = 2" by (simp add: COMMA_def)
  have e: "snd (run ''jaccard'' cooccur_tab_ex tip_ex taxa_ex hgt_empty_part_ex) = Some KeyError"
    by (simp add: run_defs ex_defs hgt_empty_part_ex_def cooccur_tab_ex_def)
  from a b c' e d
    format_check [where hgt_tab = hgt_three_parts_ex and pre = "[''X,Y'']" and ?k0.0 = "''X,Y,Z''"
      and post = "[]" and cooccur_measure = "''jaccard''" and cooccur_tab = cooccur_tab_ex
      and tip_dist = tip_ex and taxa_tab = taxa_ex]
    format_check [where hgt_tab = hgt_empty_part_ex and cooccur_measure = "''jaccard''"
      and cooccur_tab = cooccur_tab_ex and tip_dist = tip_ex and taxa_tab = taxa_ex]
  have "run ''jaccard'' cooccur_tab_ex tip_ex taxa_ex hgt_three_parts_ex
       = ([], Some (NotCorrectFormat ''X,Y,Z'')) \<and> \<not> FormatError KeyError"
    by blast
  with a b' c d' e show ?thesis by blast
qed

section \<open>The strain level gate\<close>

text \<open>
  Claim C4, as the specification words it, fails on a table with an empty rank cell, which
  \<^verbatim>\<open>read_table\<close> reads as the missing value: line 92 takes a missing rank to differ from
  every value, a missing rank included. With the Strain cell empty for both taxa the two rows
  are the same at all eight ranks, and the pair passes the gate and gets its output line. With
  the Species cell empty for both taxa the first rank where the rows are not the same is Strain,
  and the pair ends the run with the exit "not at strain level".
\<close>

theorem missing_rank_counterexample:
  "loc_levels taxa_no_strain_ex ''X'' =
     Inr [Some ''d'', Some ''p'', Some ''c'', Some ''o'', Some ''f'', Some ''g'', Some ''sp1'', None]
   \<and> loc_levels taxa_no_strain_ex ''Y'' = loc_levels taxa_no_strain_ex ''X''
   \<and> main ''jaccard'' cooccur_ex tip_ex taxa_no_strain_ex hgt_ex =
       ([header_ex,
         ''X,Y'' @ TAB @ ''X'' @ TAB @ ''Y'' @ TAB @ ''0.13'' @ TAB @ ''sp1'' @ TAB @ ''5'' @ TAB @ ''0.42''],
        None)
   \<and> loc_levels taxa_no_species_ex ''X'' =
       Inr [Some ''d'', Some ''p'', Some ''c'', Some ''o'', Some ''f'', Some ''g'', None, Some ''X'']
   \<and> loc_levels taxa_no_species_ex ''Y'' =
       Inr [Some ''d'', Some ''p'', Some ''c'', Some ''o'', Some ''f'', Some ''g'', None, Some ''Y'']
   \<and> main ''jaccard'' cooccur_ex tip_ex taxa_no_species_ex hgt_ex
       = ([header_ex], Some (NotStrainLevel ''X,Y''))"
  by (simp add: run_defs ex_defs taxa_no_strain_ex_def taxa_no_species_ex_def)

text \<open>
  Claim C4, amended. Two rank values differ when Python's \<^verbatim>\<open>!=\<close> holds of them: when they
  are not the same or one of them is missing. For a pair whose two taxa have their eight ranks in
  the taxonomic table, the scan in the order Domain, Phylum, Class, Order, Family, Genus,
  Species, Strain stops at the first rank where the two values differ. The pair passes only when
  that rank is Strain, that is, when the values of the seven ranks before Strain do not differ
  and the Strain values do; where no rank is missing, that is when the seven ranks before Strain
  are identical and the Strain values are not. When the first difference is earlier, or when no
  two values differ, the pair ends with the exit "not at strain level", a consistency error
  which names the pair; when the keys before it were processed to the end, the run prints their
  lines and ends there with that error.
\<close>

theorem strain_level_gate:
  assumes "loc_levels taxa_tab taxon_i = Inr vi" and "loc_levels taxa_tab taxon_j = Inr vj"
  shows "(\<forall>n<8. list_all2 (\<lambda>a b. \<not> differs a b) (take n vi) (take n vj) \<and> differs (vi ! n) (vj ! n)
            \<longrightarrow> diff_level vi vj = tax_levels ! n)
       \<and> (list_all2 (\<lambda>a b. \<not> differs a b) vi vj \<longrightarrow> diff_level vi vj = ''NO_DIFF_FOUND'')
       \<and> (diff_level vi vj = ''Strain'' \<longleftrightarrow>
            list_all2 (\<lambda>a b. \<not> differs a b) (take 7 vi) (take 7 vj) \<and> differs (vi ! 7) (vj ! 7))
       \<and> strain_check taxa_tab taxon_i taxon_j =
           (if list_all2 (\<lambda>a b. \<not> differs a b) (take 7 vi) (take 7 vj) \<and> differs (vi ! 7) (vj ! 7)
            then Inr ()
            else Inl (NotStrainLevel (taxon_i @ [COMMA] @ taxon_j)))
       \<and> ConsistencyError (NotStrainLevel (taxon_i @ [COMMA] @ taxon_j))
       \<and> (None \<notin> set vi \<and> None \<notin> set vj \<longrightarrow>
            (strain_check taxa_tab taxon_i taxon_j = Inr ()
               \<longleftrightarrow> take 7 vi = take 7 vj \<and> vi ! 7 \<noteq> vj ! 7))
       \<and> (tip_dist_val tip_dist taxon_i taxon_j \<noteq> Inl KeyError
            \<and> strain_check taxa_tab taxon_i taxon_j \<noteq> Inr () \<longrightarrow>
          process_pair msrs cooccur_tab tip_dist taxa_tab hgt_tab [taxon_i, taxon_j]
            = Inl (NotStrainLevel (taxon_i @ [COMMA] @ taxon_j)))
       \<and> (tip_dist_val tip_dist taxon_i taxon_j \<noteq> Inl KeyError
            \<and> strain_check taxa_tab taxon_i taxon_j \<noteq> Inr ()
            \<and> map fst hgt_tab = pre @ k # post \<and> split_on COMMA k = [taxon_i, taxon_j]
            \<and> (\<forall>k'\<in>set (map fst hgt_tab). length (split_on COMMA k') = 2)
            \<and> (\<forall>k'\<in>set pre. \<exists>line.
                  process_pair (split_on COMMA cooccur_measure) cooccur_tab tip_dist taxa_tab
                    hgt_tab (split_on COMMA k') = Inr line) \<longrightarrow>
          (\<exists>lines.
             map Inr lines =
               map (\<lambda>k'. process_pair (split_on COMMA cooccur_measure) cooccur_tab tip_dist
                            taxa_tab hgt_tab (split_on COMMA k')) pre
           \<and> run cooccur_measure cooccur_tab tip_dist taxa_tab hgt_tab
               = (join TAB (headerline (split_on COMMA cooccur_measure)) # lines,
                  Some (NotStrainLevel k))))"
proof -
  let ?gate = "list_all2 (\<lambda>a b. \<not> differs a b) (take 7 vi) (take 7 vj) \<and> differs (vi ! 7) (vj ! 7)"
  have li: "length vi = 8" and lj: "length vj = 8"
    using assms by (auto dest: loc_levels_length)
  have first: "\<forall>n<8. list_all2 (\<lambda>a b. \<not> differs a b) (take n vi) (take n vj) \<and> differs (vi ! n) (vj ! n)
            \<longrightarrow> diff_level vi vj = tax_levels ! n"
    unfolding diff_level_def using li lj
    by (auto intro!: scan_levels_first simp: tax_levels_def)
  have none: "list_all2 (\<lambda>a b. \<not> differs a b) vi vj \<longrightarrow> diff_level vi vj = ''NO_DIFF_FOUND''"
    by (simp add: diff_level_def scan_levels_none)
  have strain: "diff_level vi vj = ''Strain'' \<longleftrightarrow> ?gate"
    using li lj by (rule diff_level_Strain)
  have chk: "strain_check taxa_tab taxon_i taxon_j =
           (if ?gate then Inr () else Inl (NotStrainLevel (taxon_i @ [COMMA] @ taxon_j)))"
    using assms by (rule strain_check_eq)
  have ce: "ConsistencyError (NotStrainLevel (taxon_i @ [COMMA] @ taxon_j))"
    by simp
  have present: "strain_check taxa_tab taxon_i taxon_j = Inr ()
               \<longleftrightarrow> take 7 vi = take 7 vj \<and> vi ! 7 \<noteq> vj ! 7"
    if "None \<notin> set vi \<and> None \<notin> set vj"
  proof -
    from that have "?gate \<longleftrightarrow> take 7 vi = take 7 vj \<and> vi ! 7 \<noteq> vj ! 7"
      using no_missing_gate [OF li lj] by blast
    with chk show ?thesis by auto
  qed
  have pp: "process_pair ms cooccur_tab tip_dist taxa_tab hgt_tab [taxon_i, taxon_j]
            = Inl (NotStrainLevel (taxon_i @ [COMMA] @ taxon_j))"
    if "tip_dist_val tip_dist taxon_i taxon_j \<noteq> Inl KeyError
            \<and> strain_check taxa_tab taxon_i taxon_j \<noteq> Inr ()" for ms
  proof (cases "tip_dist_val tip_dist taxon_i taxon_j")
    case (Inl e)
    with that show ?thesis by (auto dest: tip_dist_val_failure)
  next
    case (Inr dist)
    from that chk have "strain_check taxa_tab taxon_i taxon_j
        = Inl (NotStrainLevel (taxon_i @ [COMMA] @ taxon_j))"
      by (auto split: if_splits)
    with Inr show ?thesis by (simp add: process_pair_def)
  qed
  have rn: "\<exists>lines.
             map Inr lines =
               map (\<lambda>k'. process_pair (split_on COMMA cooccur_measure) cooccur_tab tip_dist
                            taxa_tab hgt_tab (split_on COMMA k')) pre
           \<and> run cooccur_measure cooccur_tab tip_dist taxa_tab hgt_tab
               = (join TAB (headerline (split_on COMMA cooccur_measure)) # lines,
                  Some (NotStrainLevel k))"
    if h: "tip_dist_val tip_dist taxon_i taxon_j \<noteq> Inl KeyError
            \<and> strain_check taxa_tab taxon_i taxon_j \<noteq> Inr ()
            \<and> map fst hgt_tab = pre @ k # post \<and> split_on COMMA k = [taxon_i, taxon_j]
            \<and> (\<forall>k'\<in>set (map fst hgt_tab). length (split_on COMMA k') = 2)
            \<and> (\<forall>k'\<in>set pre. \<exists>line.
                  process_pair (split_on COMMA cooccur_measure) cooccur_tab tip_dist taxa_tab
                    hgt_tab (split_on COMMA k') = Inr line)"
  proof -
    from h have sp: "split_on COMMA k = [taxon_i, taxon_j]" by simp
    have k: "taxon_i @ [COMMA] @ taxon_j = k" using sp by (rule split_two_rejoin)
    from h pp [of "split_on COMMA cooccur_measure"] sp k
    have bad: "process_pair (split_on COMMA cooccur_measure) cooccur_tab tip_dist taxa_tab hgt_tab
            (split_on COMMA k) = Inl (NotStrainLevel k)"
      by simp
    from h have idx: "map fst hgt_tab = pre @ k # post"
      and two: "\<forall>k'\<in>set (map fst hgt_tab). length (split_on COMMA k') = 2"
      and ok: "\<forall>k'\<in>set pre. \<exists>line.
                  process_pair (split_on COMMA cooccur_measure) cooccur_tab tip_dist taxa_tab
                    hgt_tab (split_on COMMA k') = Inr line"
      by blast+
    from idx two ok bad show ?thesis by (rule run_ends_at_key)
  qed
  from first none strain chk ce present pp [of msrs] rn show ?thesis by blast
qed

theorem strain_level_gate_witness:
  "loc_levels taxa_ex ''X'' =
     Inr [Some ''d'', Some ''p'', Some ''c'', Some ''o'', Some ''f'', Some ''g'', Some ''sp1'', Some ''X'']
   \<and> loc_levels taxa_ex ''Y'' =
     Inr [Some ''d'', Some ''p'', Some ''c'', Some ''o'', Some ''f'', Some ''g'', Some ''sp1'', Some ''Y'']
   \<and> diff_level
       [Some ''d'', Some ''p'', Some ''c'', Some ''o'', Some ''f'', Some ''g'', Some ''sp1'', Some ''X'']
       [Some ''d'', Some ''p'', Some ''c'', Some ''o'', Some ''f'', Some ''g'', Some ''sp1'', Some ''Y'']
       = ''Strain''
   \<and> strain_check taxa_ex ''X'' ''Y'' = Inr ()
   \<and> strain_check taxa_ex ''X'' ''X'' = Inl (NotStrainLevel ''X,X'')
   \<and> run ''jaccard'' cooccur_tab_self_pair_ex tip_ex taxa_ex hgt_self_pair_ex
       = ([header_ex], Some (NotStrainLevel ''X,X''))"
proof -
  have r: "run ''jaccard'' cooccur_tab_self_pair_ex tip_ex taxa_ex hgt_self_pair_ex
       = ([header_ex], Some (NotStrainLevel ''X,X''))"
    by (simp add: run_defs ex_defs hgt_self_pair_ex_def cooccur_tab_self_pair_ex_def)
  from r strain_level_gate [OF loc_levels_X loc_levels_Y]
    strain_level_gate [OF loc_levels_X loc_levels_X]
    loc_levels_X loc_levels_Y
  show ?thesis by (simp add: COMMA_def differs_def)
qed

text \<open>
  Claim C10. When one of the two taxa of a pair is not a row label of the taxonomic table, the
  pair ends with the uncaught \<^verbatim>\<open>KeyError\<close> of the failed lookup: no "NA" is written
  for it and none of the messages of \<^verbatim>\<open>sys.exit\<close> is given, while a taxon that is not a
  row label of the tip-distance table gives "NA". A key of the HGT table with such a taxon ends
  the run with a failure.
\<close>

theorem missing_taxon_KeyError:
  assumes "taxa_tab taxon_i = None \<or> taxa_tab taxon_j = None"
  shows "process_pair msrs cooccur_tab tip_dist taxa_tab hgt_tab [taxon_i, taxon_j] = Inl KeyError
       \<and> \<not> FormatError KeyError \<and> \<not> ConsistencyError KeyError
       \<and> (tip_dist taxon_i = None \<or> tip_dist taxon_j = None \<longrightarrow>
            tip_dist_val tip_dist taxon_i taxon_j = Inr ''NA'')
       \<and> (in_index k hgt_tab \<and> split_on COMMA k = [taxon_i, taxon_j] \<longrightarrow>
            (\<exists>e. snd (run cooccur_measure cooccur_tab tip_dist taxa_tab hgt_tab) = Some e))"
proof -
  have sc: "strain_check taxa_tab taxon_i taxon_j = Inl KeyError"
  proof (cases "loc_levels taxa_tab taxon_i")
    case (Inl e)
    then show ?thesis by (auto simp: strain_check_def dest: loc_levels_failure)
  next
    case (Inr vi)
    then have "taxa_tab taxon_i \<noteq> None" by (auto simp: loc_levels_def split: option.splits)
    with assms have "loc_levels taxa_tab taxon_j = Inl KeyError" by (simp add: loc_levels_def)
    with Inr show ?thesis by (simp add: strain_check_def)
  qed
  have pp: "process_pair ms cooccur_tab tip_dist taxa_tab hgt_tab [taxon_i, taxon_j] = Inl KeyError"
    for ms
  proof (cases "tip_dist_val tip_dist taxon_i taxon_j")
    case (Inl e)
    then show ?thesis by (auto simp: process_pair_def dest: tip_dist_val_failure)
  next
    case (Inr dist)
    with sc show ?thesis by (simp add: process_pair_def)
  qed
  have na: "tip_dist taxon_i = None \<or> tip_dist taxon_j = None \<longrightarrow>
            tip_dist_val tip_dist taxon_i taxon_j = Inr ''NA''"
    by (simp add: tip_dist_val_def)
  have rn: "\<exists>e. snd (run cooccur_measure cooccur_tab tip_dist taxa_tab hgt_tab) = Some e"
    if "in_index k hgt_tab \<and> split_on COMMA k = [taxon_i, taxon_j]"
  proof -
    from that pp [of "split_on COMMA cooccur_measure"]
    have "process_pair (split_on COMMA cooccur_measure) cooccur_tab tip_dist taxa_tab hgt_tab
            (split_on COMMA k) = Inl KeyError"
      by simp
    with that show ?thesis by (blast intro: run_fails_at_key)
  qed
  from pp [of msrs] na rn show ?thesis by auto
qed

theorem missing_taxon_KeyError_witness:
  "taxa_ex ''Z'' = None \<and> tip_ex ''Z'' = None
   \<and> process_pair [''jaccard''] cooccur_tab_ex tip_ex taxa_ex hgt_unknown_taxon_ex [''X'', ''Z'']
       = Inl KeyError
   \<and> tip_dist_val tip_ex ''X'' ''Z'' = Inr ''NA''
   \<and> in_index ''X,Z'' hgt_unknown_taxon_ex \<and> split_on COMMA ''X,Z'' = [''X'', ''Z'']
   \<and> run ''jaccard'' cooccur_tab_ex tip_ex taxa_ex hgt_unknown_taxon_ex = ([header_ex], Some KeyError)"
proof -
  have z: "taxa_ex ''Z'' = None" by (simp add: taxa_ex_def)
  then have h: "taxa_ex ''X'' = None \<or> taxa_ex ''Z'' = None" by simp
  have t: "tip_ex ''Z'' = None" by (simp add: tip_ex_def)
  have i: "in_index ''X,Z'' hgt_unknown_taxon_ex"
    by (simp add: in_index_def hgt_unknown_taxon_ex_def)
  have r: "run ''jaccard'' cooccur_tab_ex tip_ex taxa_ex hgt_unknown_taxon_ex
             = ([header_ex], Some KeyError)"
    by (simp add: run_defs ex_defs hgt_unknown_taxon_ex_def cooccur_tab_ex_def)
  from z t i r split_XZ
    missing_taxon_KeyError [OF h, where msrs = "[''jaccard'']" and cooccur_tab = cooccur_tab_ex
      and tip_dist = tip_ex and hgt_tab = hgt_unknown_taxon_ex]
  show ?thesis by blast
qed

section \<open>The tip distance\<close>

text \<open>
  Claim C5, as the specification words it, fails: the program looks the pair up in one direction
  only. In a table with the rows \<open>X\<close> and \<open>Y\<close> and the one column \<open>X\<close>, both taxa are row labels
  and the distance of the pair stands at row \<open>Y\<close>, column \<open>X\<close>: a lookup in either direction
  finds 0.13, and the program raises the \<^verbatim>\<open>KeyError\<close> of the lookup at row \<open>X\<close>, column
  \<open>Y\<close>.
\<close>

theorem either_direction_counterexample:
  "tip_one_column_ex ''X'' \<noteq> None \<and> tip_one_column_ex ''Y'' \<noteq> None
   \<and> cell tip_one_column_ex ''X'' ''Y'' = None
   \<and> cell tip_one_column_ex ''Y'' ''X'' = Some ''0.13''
   \<and> spec_tip_dist_val tip_one_column_ex ''X'' ''Y'' = Inr ''0.13''
   \<and> tip_dist_val tip_one_column_ex ''X'' ''Y'' = Inl KeyError
   \<and> main ''jaccard'' cooccur_ex tip_one_column_ex taxa_ex hgt_ex = ([header_ex], Some KeyError)"
  by (simp add: run_defs ex_defs tip_one_column_ex_def spec_tip_dist_val_def cell_def)

text \<open>
  Claim C5, amended. For a pair \<open>taxon_i\<close>, \<open>taxon_j\<close> the tip-distance field is the cell of the
  tip-distance table at row \<open>taxon_i\<close>, column \<open>taxon_j\<close>, in that direction only. When one of
  the two taxa is not a row label of the table, the field is "NA" instead of a failure. When both
  are row labels and the table has no column \<open>taxon_j\<close>, the lookup raises. The field is the
  fourth of the line printed for the pair.
\<close>

theorem tip_dist_one_direction:
  "(tip_dist taxon_i = None \<or> tip_dist taxon_j = None \<longrightarrow>
      tip_dist_val tip_dist taxon_i taxon_j = Inr ''NA'')
   \<and> (tip_dist taxon_i \<noteq> None \<and> tip_dist taxon_j \<noteq> None \<longrightarrow>
      tip_dist_val tip_dist taxon_i taxon_j =
        (case cell tip_dist taxon_i taxon_j of None \<Rightarrow> Inl KeyError | Some v \<Rightarrow> Inr v))
   \<and> (process_pair msrs cooccur_tab tip_dist taxa_tab hgt_tab [taxon_i, taxon_j] = Inr line \<longrightarrow>
      (\<exists>dist rest. tip_dist_val tip_dist taxon_i taxon_j = Inr dist
         \<and> line = (taxon_i @ [COMMA] @ taxon_j) @ TAB @ taxon_i @ TAB @ taxon_j @ TAB @ dist @ TAB
                    @ rest))"
proof (intro conjI impI)
  assume "tip_dist taxon_i = None \<or> tip_dist taxon_j = None"
  then show "tip_dist_val tip_dist taxon_i taxon_j = Inr ''NA''"
    by (simp add: tip_dist_val_def)
next
  assume "tip_dist taxon_i \<noteq> None \<and> tip_dist taxon_j \<noteq> None"
  then show "tip_dist_val tip_dist taxon_i taxon_j =
        (case cell tip_dist taxon_i taxon_j of None \<Rightarrow> Inl KeyError | Some v \<Rightarrow> Inr v)"
    by (auto simp: tip_dist_val_def cell_def split: option.splits)
next
  assume "process_pair msrs cooccur_tab tip_dist taxa_tab hgt_tab [taxon_i, taxon_j] = Inr line"
  from process_pair_line [OF this]
  show "\<exists>dist rest. tip_dist_val tip_dist taxon_i taxon_j = Inr dist
         \<and> line = (taxon_i @ [COMMA] @ taxon_j) @ TAB @ taxon_i @ TAB @ taxon_j @ TAB @ dist @ TAB
                    @ rest"
    by blast
qed

theorem tip_dist_one_direction_witness:
  "tip_ex ''Z'' = None \<and> tip_dist_val tip_ex ''X'' ''Z'' = Inr ''NA''
   \<and> tip_ex ''X'' \<noteq> None \<and> tip_ex ''Y'' \<noteq> None \<and> tip_dist_val tip_ex ''X'' ''Y'' = Inr ''0.13''"
proof -
  have z: "tip_ex ''Z'' = None" and x: "tip_ex ''X'' \<noteq> None" and y: "tip_ex ''Y'' \<noteq> None"
    and c: "cell tip_ex ''X'' ''Y'' = Some ''0.13''"
    by (simp_all add: tip_ex_def cell_def)
  from z x y c
    tip_dist_one_direction [where tip_dist = tip_ex and taxon_i = "''X''" and taxon_j = "''Z''"]
    tip_dist_one_direction [where tip_dist = tip_ex and taxon_i = "''X''" and taxon_j = "''Y''"]
  show ?thesis by simp
qed

section \<open>The reversed key in the HGT table\<close>

text \<open>
  Claim C6, as the specification words it, fails: the run need not end with a consistency error.
  With the keys \<open>X,Z\<close> and \<open>Z,X\<close> in the HGT table and no row for \<open>Z\<close> in the taxonomic table,
  the pair of \<open>X,Z\<close> ends the run at line 90 with the uncaught \<^verbatim>\<open>KeyError\<close>, before
  the test of line 100 is reached.
\<close>

theorem reverse_in_hgt_KeyError_counterexample:
  "in_index ''X,Z'' hgt_unknown_both_orders_ex \<and> in_index ''Z,X'' hgt_unknown_both_orders_ex
   \<and> split_on COMMA ''X,Z'' = [''X'', ''Z'']
   \<and> taxa_ex ''Z'' = None
   \<and> main ''jaccard'' cooccur_ex tip_ex taxa_ex hgt_unknown_both_orders_ex
       = ([header_ex], Some KeyError)
   \<and> \<not> ConsistencyError KeyError"
  by (simp add: run_defs ex_defs hgt_unknown_both_orders_ex_def)

text \<open>
  Claim C6, amended. A key of the HGT table whose reversed key is in the HGT table too never gets
  an output line: its pair fails. When the lookups of the pair in the tip-distance and taxonomic
  tables do not raise, the failure is a consistency error: "not at strain level" when the pair
  does not pass the strain level gate, "Reverse taxa_combo found in HGT table" when it does.
  When one of these lookups raises, the failure is the uncaught \<^verbatim>\<open>KeyError\<close>. The run
  ends with a failure; when every key has two parts and the keys before this one were processed
  to the end, the run prints their lines and ends there with the failure of this pair.
\<close>

theorem reverse_in_hgt_fatal:
  assumes "map fst hgt_tab = pre @ k # post" and "split_on COMMA k = [taxon_i, taxon_j]"
    and "in_index (taxon_j @ [COMMA] @ taxon_i) hgt_tab"
  shows "(\<exists>e. process_pair msrs cooccur_tab tip_dist taxa_tab hgt_tab [taxon_i, taxon_j] = Inl e)
       \<and> (tip_dist_val tip_dist taxon_i taxon_j = Inl KeyError
            \<or> loc_levels taxa_tab taxon_i = Inl KeyError
            \<or> loc_levels taxa_tab taxon_j = Inl KeyError \<longrightarrow>
          process_pair msrs cooccur_tab tip_dist taxa_tab hgt_tab [taxon_i, taxon_j] = Inl KeyError)
       \<and> (tip_dist_val tip_dist taxon_i taxon_j \<noteq> Inl KeyError
            \<and> loc_levels taxa_tab taxon_i \<noteq> Inl KeyError
            \<and> loc_levels taxa_tab taxon_j \<noteq> Inl KeyError
            \<and> strain_check taxa_tab taxon_i taxon_j \<noteq> Inr () \<longrightarrow>
          process_pair msrs cooccur_tab tip_dist taxa_tab hgt_tab [taxon_i, taxon_j]
            = Inl (NotStrainLevel k))
       \<and> (tip_dist_val tip_dist taxon_i taxon_j \<noteq> Inl KeyError
            \<and> strain_check taxa_tab taxon_i taxon_j = Inr () \<longrightarrow>
          process_pair msrs cooccur_tab tip_dist taxa_tab hgt_tab [taxon_i, taxon_j]
            = Inl (ReverseInHGT (taxon_j @ [COMMA] @ taxon_i)))
       \<and> ConsistencyError (NotStrainLevel k)
       \<and> ConsistencyError (ReverseInHGT (taxon_j @ [COMMA] @ taxon_i))
       \<and> (\<exists>e. snd (run cooccur_measure cooccur_tab tip_dist taxa_tab hgt_tab) = Some e)
       \<and> ((\<forall>k'\<in>set (map fst hgt_tab). length (split_on COMMA k') = 2)
            \<and> (\<forall>k'\<in>set pre. \<exists>line.
                  process_pair (split_on COMMA cooccur_measure) cooccur_tab tip_dist taxa_tab
                    hgt_tab (split_on COMMA k') = Inr line) \<longrightarrow>
          (\<exists>lines e.
             map Inr lines =
               map (\<lambda>k'. process_pair (split_on COMMA cooccur_measure) cooccur_tab tip_dist
                            taxa_tab hgt_tab (split_on COMMA k')) pre
           \<and> process_pair (split_on COMMA cooccur_measure) cooccur_tab tip_dist taxa_tab hgt_tab
               [taxon_i, taxon_j] = Inl e
           \<and> run cooccur_measure cooccur_tab tip_dist taxa_tab hgt_tab
               = (join TAB (headerline (split_on COMMA cooccur_measure)) # lines, Some e)))"
proof -
  let ?r = "taxon_j @ [COMMA] @ taxon_i"
  have k: "taxon_i @ [COMMA] @ taxon_j = k" using assms(2) by (rule split_two_rejoin)
  have ink: "in_index k hgt_tab" using assms(1) by (simp add: in_index_def)
  have key: "process_pair ms cooccur_tab tip_dist taxa_tab hgt_tab [taxon_i, taxon_j] = Inl KeyError"
    if "tip_dist_val tip_dist taxon_i taxon_j = Inl KeyError
            \<or> loc_levels taxa_tab taxon_i = Inl KeyError
            \<or> loc_levels taxa_tab taxon_j = Inl KeyError" for ms
  proof (cases "tip_dist_val tip_dist taxon_i taxon_j")
    case (Inl e)
    then show ?thesis by (auto simp: process_pair_def dest: tip_dist_val_failure)
  next
    case tip: (Inr dist)
    with that have "loc_levels taxa_tab taxon_i = Inl KeyError \<or> loc_levels taxa_tab taxon_j = Inl KeyError"
      by simp
    then have "strain_check taxa_tab taxon_i taxon_j = Inl KeyError"
      by (auto simp: strain_check_def split: sum.splits dest: loc_levels_failure)
    with tip show ?thesis by (simp add: process_pair_def)
  qed
  have gate: "process_pair ms cooccur_tab tip_dist taxa_tab hgt_tab [taxon_i, taxon_j]
            = Inl (NotStrainLevel k)"
    if "tip_dist_val tip_dist taxon_i taxon_j \<noteq> Inl KeyError
            \<and> loc_levels taxa_tab taxon_i \<noteq> Inl KeyError
            \<and> loc_levels taxa_tab taxon_j \<noteq> Inl KeyError
            \<and> strain_check taxa_tab taxon_i taxon_j \<noteq> Inr ()" for ms
  proof (cases "tip_dist_val tip_dist taxon_i taxon_j")
    case (Inl e)
    with that show ?thesis by (auto dest: tip_dist_val_failure)
  next
    case tip: (Inr dist)
    from that obtain e where e: "strain_check taxa_tab taxon_i taxon_j = Inl e"
      by (cases "strain_check taxa_tab taxon_i taxon_j") auto
    from strain_check_failure [OF e] that k have "e = NotStrainLevel k" by auto
    with e tip show ?thesis by (simp add: process_pair_def)
  qed
  have revd: "process_pair ms cooccur_tab tip_dist taxa_tab hgt_tab [taxon_i, taxon_j]
            = Inl (ReverseInHGT ?r)"
    if "tip_dist_val tip_dist taxon_i taxon_j \<noteq> Inl KeyError
            \<and> strain_check taxa_tab taxon_i taxon_j = Inr ()" for ms
  proof (cases "tip_dist_val tip_dist taxon_i taxon_j")
    case (Inl e)
    with that show ?thesis by (auto dest: tip_dist_val_failure)
  next
    case tip: (Inr dist)
    with that ink assms(3) k show ?thesis
      by (simp add: process_pair_def hgt_check_def)
  qed
  have fails: "\<exists>e. process_pair ms cooccur_tab tip_dist taxa_tab hgt_tab [taxon_i, taxon_j] = Inl e"
    for ms
  proof (cases "tip_dist_val tip_dist taxon_i taxon_j = Inl KeyError
            \<or> loc_levels taxa_tab taxon_i = Inl KeyError
            \<or> loc_levels taxa_tab taxon_j = Inl KeyError")
    case True
    from key [OF this] show ?thesis by blast
  next
    case False
    show ?thesis
    proof (cases "strain_check taxa_tab taxon_i taxon_j = Inr ()")
      case True
      with False revd [of ms] show ?thesis by blast
    next
      case nogate: False
      with False gate [of ms] show ?thesis by blast
    qed
  qed
  from fails [of "split_on COMMA cooccur_measure"] assms(2)
  obtain e where bad: "process_pair (split_on COMMA cooccur_measure) cooccur_tab tip_dist taxa_tab
      hgt_tab (split_on COMMA k) = Inl e"
    by auto
  with ink have ended: "\<exists>e. snd (run cooccur_measure cooccur_tab tip_dist taxa_tab hgt_tab) = Some e"
    by (rule run_fails_at_key)
  have rn: "\<exists>lines e.
             map Inr lines =
               map (\<lambda>k'. process_pair (split_on COMMA cooccur_measure) cooccur_tab tip_dist
                            taxa_tab hgt_tab (split_on COMMA k')) pre
           \<and> process_pair (split_on COMMA cooccur_measure) cooccur_tab tip_dist taxa_tab hgt_tab
               [taxon_i, taxon_j] = Inl e
           \<and> run cooccur_measure cooccur_tab tip_dist taxa_tab hgt_tab
               = (join TAB (headerline (split_on COMMA cooccur_measure)) # lines, Some e)"
    if h: "(\<forall>k'\<in>set (map fst hgt_tab). length (split_on COMMA k') = 2)
            \<and> (\<forall>k'\<in>set pre. \<exists>line.
                  process_pair (split_on COMMA cooccur_measure) cooccur_tab tip_dist taxa_tab
                    hgt_tab (split_on COMMA k') = Inr line)"
  proof -
    from h have tw: "\<forall>k'\<in>set (map fst hgt_tab). length (split_on COMMA k') = 2"
      and ok: "\<forall>k'\<in>set pre. \<exists>line.
                  process_pair (split_on COMMA cooccur_measure) cooccur_tab tip_dist taxa_tab
                    hgt_tab (split_on COMMA k') = Inr line"
      by blast+
    from run_ends_at_key [OF assms(1) tw ok bad] bad assms(2) show ?thesis
      by auto
  qed
  have ce: "ConsistencyError (NotStrainLevel k)" "ConsistencyError (ReverseInHGT ?r)"
    by simp_all
  from fails [of msrs] key [of msrs] gate [of msrs] revd [of msrs] ce ended rn
  show ?thesis by blast
qed


theorem reverse_in_hgt_fatal_witness:
  "map fst hgt_both_orders_ex = [] @ ''X,Y'' # [''Y,X'']
   \<and> split_on COMMA ''X,Y'' = [''X'', ''Y'']
   \<and> in_index (''Y'' @ [COMMA] @ ''X'') hgt_both_orders_ex
   \<and> tip_dist_val tip_ex ''X'' ''Y'' = Inr ''0.13''
   \<and> strain_check taxa_ex ''X'' ''Y'' = Inr ()
   \<and> process_pair [''jaccard''] cooccur_tab_ex tip_ex taxa_ex hgt_both_orders_ex [''X'', ''Y'']
       = Inl (ReverseInHGT (''Y'' @ [COMMA] @ ''X''))
   \<and> run ''jaccard'' cooccur_tab_ex tip_ex taxa_ex hgt_both_orders_ex
       = ([header_ex], Some (ReverseInHGT ''Y,X''))"
proof -
  have b: "in_index (''Y'' @ [COMMA] @ ''X'') hgt_both_orders_ex"
    by (simp add: in_index_def hgt_both_orders_ex_def COMMA_def)
  have t: "tip_dist_val tip_ex ''X'' ''Y'' = Inr ''0.13''"
    by (simp add: tip_dist_val_def tip_ex_def)
  then have t': "tip_dist_val tip_ex ''X'' ''Y'' \<noteq> Inl KeyError" by simp
  have s: "strain_check taxa_ex ''X'' ''Y'' = Inr ()"
    by (simp add: run_defs ex_defs)
  have d: "run ''jaccard'' cooccur_tab_ex tip_ex taxa_ex hgt_both_orders_ex
       = ([header_ex], Some (ReverseInHGT ''Y,X''))"
    by (simp add: run_defs ex_defs hgt_both_orders_ex_def cooccur_tab_ex_def)
  from t' s
    reverse_in_hgt_fatal [OF hgt_both_orders_index split_XY b, where msrs = "[''jaccard'']"
      and cooccur_tab = cooccur_tab_ex and tip_dist = tip_ex and taxa_tab = taxa_ex]
  have "process_pair [''jaccard''] cooccur_tab_ex tip_ex taxa_ex hgt_both_orders_ex [''X'', ''Y'']
       = Inl (ReverseInHGT (''Y'' @ [COMMA] @ ''X''))"
    by blast
  with hgt_both_orders_index split_XY b t s d show ?thesis by blast
qed

section \<open>The output line\<close>



section \<open>The canonical key\<close>

text \<open>
  Claim C8. The canonical key does not depend on the order of the two identifiers, and it is the
  smaller identifier, a comma, and the larger one.
\<close>

theorem pair_key_order_independent:
  "pair_key a b = pair_key b a \<and> pair_key a b = min a b @ '','' @ max a b"
  by (auto simp: pair_key_def COMMA_def min_def max_def)

theorem pair_key_order_independent_witness:
  "pair_key ''Y'' ''X'' = ''X,Y'' \<and> pair_key ''X'' ''Y'' = ''X,Y''"
  using pair_key_order_independent [of "''Y''" "''X''"] by (auto simp: min_def max_def)

section \<open>The exit that is never taken\<close>

text \<open>
  Claim C9. A key that splits on commas into two parts is those two parts joined by a comma
  again. So the key built for a pair at line 78 is the key of the HGT table the pair came from,
  the test of line 98 never fails, and no run ends with the exit
  "Taxa_combo not found in HGT table".
\<close>

theorem not_found_unreachable:
  "(split_on COMMA k = [a, b] \<longrightarrow> a @ [COMMA] @ b = k)
   \<and> snd (main cooccur_measure cooccur_file tip_dist taxa_tab hgt_tab) \<noteq> Some (NotInHGT x)"
proof
  show "split_on COMMA k = [a, b] \<longrightarrow> a @ [COMMA] @ b = k"
    by (auto dest: split_two_rejoin)
next
  show "snd (main cooccur_measure cooccur_file tip_dist taxa_tab hgt_tab) \<noteq> Some (NotInHGT x)"
  proof
    assume ended: "snd (main cooccur_measure cooccur_file tip_dist taxa_tab hgt_tab) = Some (NotInHGT x)"
    then obtain cooccur_tab where
      r: "snd (run cooccur_measure cooccur_tab tip_dist taxa_tab hgt_tab) = Some (NotInHGT x)"
      by (auto simp: main_def split: sum.splits dest: index_cooccur_failure)
    from run_ended [OF r] obtain k' where k': "k' \<in> set (map fst hgt_tab)"
      and two: "length (split_on COMMA k') = 2"
      and pp: "process_pair (split_on COMMA cooccur_measure) cooccur_tab tip_dist taxa_tab hgt_tab
               (split_on COMMA k') = Inl (NotInHGT x)"
      by auto
    from two obtain i j where ij: "split_on COMMA k' = [i, j]"
      by (auto simp: numeral_eq_Suc length_Suc_conv)
    from pp ij have "\<not> in_index (i @ [COMMA] @ j) hgt_tab"
      by (auto dest: process_pair_NotInHGT)
    moreover have "i @ [COMMA] @ j = k'" using ij by (rule split_two_rejoin)
    ultimately show False using k' by (simp add: in_index_def)
  qed
qed

theorem not_found_unreachable_witness:
  "split_on COMMA ''X,Y'' = [''X'', ''Y''] \<and> ''X'' @ [COMMA] @ ''Y'' = ''X,Y''
   \<and> snd (main ''jaccard'' cooccur_ex tip_ex taxa_ex hgt_ex) \<noteq> Some (NotInHGT ''X,Y'')"
  using not_found_unreachable [of "''X,Y''" "''X''" "''Y''" "''jaccard''" cooccur_ex tip_ex taxa_ex hgt_ex "''X,Y''"]
  by (simp add: COMMA_def)

end
